theory Spec2Isabelle
  imports Main
begin

section \<open>Data model (package models)\<close>

text \<open>
  A \<open>time.Time\<close> is modelled as the number of nanoseconds since the Unix epoch, an
  unbounded integer. Only \<open>time.Now()\<close> and \<open>AddDate(0, 0, d)\<close> are used by the
  handlers.

  What the clock shows during one run of a handler is a parameter. \<open>getSampleEntries\<close>
  calls \<open>time.Now()\<close> three times, once for each entry, so a clock holds three
  readings, of which nothing is assumed. \<open>AddDate(0, 0, d)\<close> moves the calendar date by
  \<open>d\<close> days and keeps the wall-clock time of the local zone: the instant moves by \<open>d\<close>
  times 24 hours and by the difference of the zone's UTC offsets at the two ends (an
  hour across a daylight-saving change). That difference is the clock's \<open>zoneShift\<close>,
  a function of the instant and the number of days, of which nothing is assumed either.
\<close>

type_synonym time = int

definition nsPerDay :: int where
  "nsPerDay = 86400000000000"

record clock =
  zoneShift :: "time \<Rightarrow> int \<Rightarrow> int"
  reading1 :: time
  reading2 :: time
  reading3 :: time

definition AddDate :: "clock \<Rightarrow> time \<Rightarrow> int \<Rightarrow> int \<Rightarrow> int \<Rightarrow> time" where
  \<comment> \<open>Only the call shape \<open>AddDate(0, 0, days)\<close> occurs; years and months are carried
      for the signature and must be zero.\<close>
  "AddDate clk t years months days = t + days * nsPerDay + zoneShift clk t days"

definition zeroTime :: time where
  \<comment> \<open>Go's zero \<open>time.Time\<close>: January 1, year 1, 00:00:00 UTC.\<close>
  "zeroTime = - 62135596800 * 1000000000"

record Movie =
  Title :: string
  PosterURL :: string
  Director :: string
  Genre :: string
  Overview :: string
  ID :: int
  TMDBID :: int
  Year :: int

type_synonym LookupCategory = string

definition LookupCategoryActor :: LookupCategory where
  "LookupCategoryActor = ''actor''"

definition LookupCategoryLocation :: LookupCategory where
  "LookupCategoryLocation = ''location''"

definition LookupCategoryTrivia :: LookupCategory where
  "LookupCategoryTrivia = ''trivia''"

definition LookupCategoryOther :: LookupCategory where
  "LookupCategoryOther = ''other''"

record Lookup =
  CreatedAt :: time
  Question :: string
  Answer :: string
  Category :: LookupCategory
  URL :: string
  ID :: int
  DiaryEntryID :: int

record DiaryEntry =
  WatchedDate :: time
  CreatedAt :: time
  Movie :: "Movie option"
  WatchedLocation :: string
  WatchedWith :: string
  Notes :: string
  Lookups :: "Lookup list"
  ID :: int
  MovieID :: int
  Rating :: int

section \<open>The sample entry source (package handlers)\<close>

text \<open>
  \<open>getSampleEntries\<close> reads the clock and nothing else: the clock is its only
  parameter, and each entry takes its watched date from its own reading. Fields the Go
  literal leaves out take their zero values.
\<close>

definition sampleLookup :: "int \<Rightarrow> string \<Rightarrow> string \<Rightarrow> LookupCategory \<Rightarrow> Lookup" where
  \<comment> \<open>A \<open>models.Lookup\<close> literal that sets \<open>ID\<close>, \<open>Question\<close>, \<open>Answer\<close> and \<open>Category\<close>.\<close>
  "sampleLookup i q a c =
     \<lparr> Lookup.CreatedAt = zeroTime, Question = q, Answer = a, Category = c,
       URL = [], Lookup.ID = i, DiaryEntryID = 0 \<rparr>"

definition getSampleEntries :: "clock \<Rightarrow> DiaryEntry list" where
  "getSampleEntries now =
   [ \<lparr> WatchedDate = AddDate now (reading1 now) 0 0 (- 2),
       DiaryEntry.CreatedAt = zeroTime,
       Movie = Some \<lparr>
         Title = ''Fight Club'',
         PosterURL = ''https://image.tmdb.org/t/p/w185/pB8BM7pdSp6B6Ih7QZ4DrQ3PmJK.jpg'',
         Director = ''David Fincher'',
         Genre = ''Drama'',
         Overview = ''A depressed man suffering from insomnia meets a strange soap salesman ''
           @ ''named Tyler Durden and soon finds himself living in his squalid house ''
           @ ''after his perfect apartment is destroyed.'',
         Movie.ID = 1, TMDBID = 550, Year = 1999 \<rparr>,
       WatchedLocation = ''Home'',
       WatchedWith = ''Sarah'',
       Notes = ''First rule of Fight Club...'',
       Lookups = [
         sampleLookup 1 ''Where was the Paper Street house?''
           ''The house was located in Wilmington, Delaware'' LookupCategoryLocation ],
       DiaryEntry.ID = 1, MovieID = 1, Rating = 5 \<rparr>,
     \<lparr> WatchedDate = AddDate now (reading2 now) 0 0 (- 5),
       DiaryEntry.CreatedAt = zeroTime,
       Movie = Some \<lparr>
         Title = ''Inception'',
         PosterURL = ''https://image.tmdb.org/t/p/w185/oYuLEt3zVCKq57qu2F8dT7NIa6f.jpg'',
         Director = ''Christopher Nolan'',
         Genre = ''Sci-Fi'',
         Overview = ''Cobb, a skilled thief who commits corporate espionage by infiltrating ''
           @ ''the subconscious of his targets is offered a chance to regain his old life ''
           @ ''as payment for a task considered to be impossible: inception.'',
         Movie.ID = 2, TMDBID = 27205, Year = 2010 \<rparr>,
       WatchedLocation = ''Cinema'',
       WatchedWith = [],
       Notes = ''The ending still gets me every time. Is it real or not?'',
       Lookups = [
         sampleLookup 2 ''Who composed the score?'' ''Hans Zimmer'' LookupCategoryTrivia,
         sampleLookup 3 ''Where was the rotating hallway filmed?''
           ''Cardington Studios in Bedfordshire, UK'' LookupCategoryLocation ],
       DiaryEntry.ID = 2, MovieID = 2, Rating = 3 \<rparr>,
     \<lparr> WatchedDate = AddDate now (reading3 now) 0 0 (- 10),
       DiaryEntry.CreatedAt = zeroTime,
       Movie = Some \<lparr>
         Title = ''Pulp Fiction'',
         PosterURL = ''https://image.tmdb.org/t/p/w185/d5iIlFn5s0ImszYzBPb8JPIfbXD.jpg'',
         Director = ''Quentin Tarantino'',
         Genre = ''Crime'',
         Overview = ''A burger-loving hit man, his philosophical partner, a drug-addled ''
           @ ''gangster's moll and a washed-up boxer converge in this sprawling, ''
           @ ''comedic crime caper.'',
         Movie.ID = 3, TMDBID = 680, Year = 1994 \<rparr>,
       WatchedLocation = ''In-flight'',
       WatchedWith = ''Mike'',
       Notes = ''A masterpiece of non-linear storytelling.'',
       Lookups = [],
       DiaryEntry.ID = 3, MovieID = 3, Rating = 4 \<rparr> ]"

fun getEntryByID :: "int \<Rightarrow> DiaryEntry list \<Rightarrow> DiaryEntry option" where
  \<comment> \<open>The first entry with the id, in list order; \<open>None\<close> is the nil pointer.\<close>
  "getEntryByID i [] = None"
| "getEntryByID i (e # es) = (if DiaryEntry.ID e = i then Some e else getEntryByID i es)"

section \<open>Decimal parsing (\<open>strconv.ParseInt(s, 10, 64)\<close> and \<open>strconv.Atoi\<close>)\<close>

text \<open>
  The handlers parse path identifiers with \<open>strconv.ParseInt(idStr, 10, 64)\<close> and the
  rating filter with \<open>strconv.Atoi\<close>. Both belong to Go's standard library; they are
  modelled after its algorithm: an optional sign, then \<open>ParseUint\<close>'s loop over the
  digits with its two overflow checks, then the signed range check. Unsigned 64-bit
  values are unbounded integers with the overflow tests written out.
\<close>

datatype NumError = ErrSyntax | ErrRange

definition maxUint64 :: int where
  "maxUint64 = 18446744073709551615"

definition isDigit :: "char \<Rightarrow> bool" where
  "isDigit c = (48 \<le> (of_char c :: int) \<and> (of_char c :: int) \<le> 57)"

definition digitVal :: "char \<Rightarrow> int" where
  \<comment> \<open>\<open>c - '0'\<close>, used on digits only.\<close>
  "digitVal c = (of_char c :: int) - 48"

fun ParseUint_loop :: "int \<Rightarrow> string \<Rightarrow> NumError + int" where
  \<comment> \<open>Base 10: a byte that is not a digit is a syntax error (letters are digits of a
      larger base, the underscore is accepted for base 0 only). \<open>n \<ge> cutoff\<close> says
      that \<open>n * 10\<close> overflows, the next test that adding the digit does.\<close>
  "ParseUint_loop n [] = Inr n"
| "ParseUint_loop n (c # cs) =
     (if \<not> isDigit c then Inl ErrSyntax
      else if n \<ge> maxUint64 div 10 + 1 then Inl ErrRange
      else if n * 10 + digitVal c > maxUint64 then Inl ErrRange
      else ParseUint_loop (n * 10 + digitVal c) cs)"

definition ParseUint :: "string \<Rightarrow> NumError + int" where
  "ParseUint s = (if s = [] then Inl ErrSyntax else ParseUint_loop 0 s)"

definition ParseInt :: "string \<Rightarrow> NumError + int" where
  "ParseInt s =
     (if s = [] then Inl ErrSyntax
      else
        let neg = (hd s = CHR ''-'');
            s' = (if hd s = CHR ''+'' \<or> hd s = CHR ''-'' then tl s else s)
        in case ParseUint s' of
             Inl ErrSyntax \<Rightarrow> Inl ErrSyntax
           | Inl ErrRange \<Rightarrow> Inl ErrRange
           | Inr un \<Rightarrow>
               if \<not> neg \<and> un \<ge> 2 ^ 63 then Inl ErrRange
               else if neg \<and> un > 2 ^ 63 then Inl ErrRange
               else Inr (if neg then - un else un))"

definition Atoi :: "string \<Rightarrow> NumError + int" where
  \<comment> \<open>\<open>Atoi(s)\<close> is \<open>ParseInt(s, 10, 0)\<close>; \<open>int\<close> is 64 bits wide on the build targets.\<close>
  "Atoi s = ParseInt s"

section \<open>The database behind the handle (package database)\<close>

text \<open>
  The SQLite database is abstracted to what the migration code can tell apart: whether
  the tracking table \<open>schema_migrations\<close> exists and which versions its rows hold
  (\<open>version\<close> is the primary key; the \<open>applied_at\<close> timestamp is left out), and the
  names of the other tables and indexes.
\<close>

record db_state =
  schema_migrations :: "int list option"
  objects :: "string set"

section \<open>Requests, responses and effects of a handler\<close>

text \<open>
  A request is reduced to what the handlers read from it: the path value \<open>id\<close>, the
  query value \<open>min_rating\<close> (empty when absent, as \<open>Query().Get\<close> returns), and the
  outcome of \<open>r.ParseForm()\<close>: \<open>None\<close> when it returns an error, otherwise the form
  values in order.
\<close>

record request =
  pathId :: string
  minRatingParam :: string
  form :: "(string \<times> string) list option"

definition FormValue :: "request \<Rightarrow> string \<Rightarrow> string" where
  \<comment> \<open>The first value of the key, the empty string when there is none.\<close>
  "FormValue r k =
     (case form r of
        None \<Rightarrow> []
      | Some kvs \<Rightarrow> (case map_of kvs k of None \<Rightarrow> [] | Some v \<Rightarrow> v))"

text \<open>
  A response is the call the handler makes on the response writer: \<open>http.Error\<close> with
  a message and a status, a template rendered into the writer (status 200 by default),
  \<open>http.Redirect\<close>, or headers set by hand followed by \<open>WriteHeader\<close> with no body.
\<close>

datatype response =
    HttpError string nat
  | Body string
  | Redirect string nat
  | WriteHeader "(string \<times> string) list" nat

fun StatusCode :: "response \<Rightarrow> nat" where
  "StatusCode (HttpError msg code) = code"
| "StatusCode (Body html) = 200"
| "StatusCode (Redirect url code) = code"
| "StatusCode (WriteHeader hs code) = code"

definition StatusOK :: nat where "StatusOK = 200"
definition StatusSeeOther :: nat where "StatusSeeOther = 303"
definition StatusBadRequest :: nat where "StatusBadRequest = 400"
definition StatusNotFound :: nat where "StatusNotFound = 404"
definition StatusInternalServerError :: nat where "StatusInternalServerError = 500"

text \<open>
  The templates (package templates, generated from templ sources) are a parameter: a
  renderer maps the component a handler builds to its markup, or to \<open>None\<close> when
  \<open>Render\<close> returns an error.
\<close>

datatype fragment =
    Index "DiaryEntry list" string
  | About
  | MovieDetails DiaryEntry
  | MovieCard DiaryEntry
  | RecentEntries "DiaryEntry list" string
  | DiaryNew
  | DiaryEditForm DiaryEntry

type_synonym renderer = "fragment \<Rightarrow> string option"

definition renderOr500 :: "renderer \<Rightarrow> fragment \<Rightarrow> response" where
  "renderOr500 render f =
     (case render f of
        None \<Rightarrow> HttpError ''Failed to render template'' StatusInternalServerError
      | Some html \<Rightarrow> Body html)"

text \<open>
  What a handler does besides answering is recorded in the world it runs in: the
  database behind \<open>h.db\<close>, and the trace of its reads of the entry source and of its
  \<open>slog.Info\<close> records.
\<close>

datatype event =
    ReadSampleEntries
  | LogInfo string "(string \<times> string) list"

record world =
  database :: db_state
  events :: "event list"

definition emit :: "event \<Rightarrow> world \<Rightarrow> world" where
  "emit ev w = w\<lparr>events := events w @ [ev]\<rparr>"

section \<open>The handlers (package handlers)\<close>



definition renderDiaryEntry ::
  "renderer \<Rightarrow> clock \<Rightarrow> (DiaryEntry \<Rightarrow> fragment) \<Rightarrow> request \<Rightarrow> world \<Rightarrow> response \<times> world" where
  "renderDiaryEntry render now renderFunc r w =
     (case ParseInt (pathId r) of
        Inl err \<Rightarrow> (HttpError ''Invalid ID'' StatusBadRequest, w)
      | Inr i \<Rightarrow>
          (let entries = getSampleEntries now; w1 = emit ReadSampleEntries w
           in case getEntryByID i entries of
                None \<Rightarrow> (HttpError ''Entry not found'' StatusNotFound, w1)
              | Some found \<Rightarrow> (renderOr500 render (renderFunc found), w1)))"

definition GetDiaryEntry :: "renderer \<Rightarrow> clock \<Rightarrow> request \<Rightarrow> world \<Rightarrow> response \<times> world" where
  "GetDiaryEntry render now r w = renderDiaryEntry render now MovieDetails r w"

definition GetDiaryEntryShort :: "renderer \<Rightarrow> clock \<Rightarrow> request \<Rightarrow> world \<Rightarrow> response \<times> world" where
  "GetDiaryEntryShort render now r w = renderDiaryEntry render now MovieCard r w"

fun filterLoop :: "int \<Rightarrow> DiaryEntry list \<Rightarrow> DiaryEntry list \<Rightarrow> DiaryEntry list" where
  \<comment> \<open>The \<open>for i := range entries\<close> loop of \<open>GetRecentEntries\<close>, appending to \<open>filtered\<close>.\<close>
  "filterLoop minRating [] filtered = filtered"
| "filterLoop minRating (e # es) filtered =
     filterLoop minRating es (if Rating e \<ge> minRating then filtered @ [e] else filtered)"

definition GetRecentEntries :: "renderer \<Rightarrow> clock \<Rightarrow> request \<Rightarrow> world \<Rightarrow> response \<times> world" where
  "GetRecentEntries render now r w =
     (let entries = getSampleEntries now;
          rating = minRatingParam r;
          entries' =
            (if rating \<noteq> [] then
               (case Atoi rating of
                  Inr minRating \<Rightarrow> filterLoop minRating entries []
                | Inl err \<Rightarrow> entries)
             else entries)
      in (renderOr500 render (RecentEntries entries' rating), emit ReadSampleEntries w))"


definition formAttrs :: "request \<Rightarrow> (string \<times> string) list" where
  \<comment> \<open>The attributes of the log record, in the order of the \<open>slog.String\<close> calls.\<close>
  "formAttrs r =
     [ (''watched_date'', FormValue r ''watched_date''),
       (''watched_location'', FormValue r ''watched_location''),
       (''movie_title'', FormValue r ''movie_title''),
       (''rating'', FormValue r ''rating''),
       (''notes'', FormValue r ''notes''),
       (''watched_with'', FormValue r ''watched_with'') ]"

definition CreateDiaryEntry :: "renderer \<Rightarrow> clock \<Rightarrow> request \<Rightarrow> world \<Rightarrow> response \<times> world" where
  "CreateDiaryEntry render now r w =
     (case form r of
        None \<Rightarrow> (HttpError ''Failed to parse form'' StatusBadRequest, w)
      | Some kvs \<Rightarrow>
          (Redirect ''/'' StatusSeeOther,
           emit (LogInfo ''Received new diary entry'' (formAttrs r)) w))"

definition EditDiaryEntryForm :: "renderer \<Rightarrow> clock \<Rightarrow> request \<Rightarrow> world \<Rightarrow> response \<times> world" where
  "EditDiaryEntryForm render now r w =
     (case ParseInt (pathId r) of
        Inl err \<Rightarrow> (HttpError ''Invalid ID'' StatusBadRequest, w)
      | Inr i \<Rightarrow>
          (let entries = getSampleEntries now; w1 = emit ReadSampleEntries w
           in case getEntryByID i entries of
                None \<Rightarrow> (HttpError ''Entry not found'' StatusNotFound, w1)
              | Some found \<Rightarrow> (renderOr500 render (DiaryEditForm found), w1)))"

definition EditDiaryEntry :: "renderer \<Rightarrow> clock \<Rightarrow> request \<Rightarrow> world \<Rightarrow> response \<times> world" where
  "EditDiaryEntry render now r w =
     (case ParseInt (pathId r) of
        Inl err \<Rightarrow> (HttpError ''Invalid ID'' StatusBadRequest, w)
      | Inr i \<Rightarrow>
          (case form r of
             None \<Rightarrow> (HttpError ''Failed to parse form'' StatusBadRequest, w)
           | Some kvs \<Rightarrow>
               (let w1 = emit (LogInfo ''Received edit for diary entry'' (formAttrs r)) w;
                    entries = getSampleEntries now;
                    w2 = emit ReadSampleEntries w1
                in case getEntryByID i entries of
                     None \<Rightarrow> (HttpError ''Entry not found after edit'' StatusNotFound, w2)
                   | Some entry \<Rightarrow> (renderOr500 render (MovieDetails entry), w2))))"

definition DeleteDiaryEntry :: "renderer \<Rightarrow> clock \<Rightarrow> request \<Rightarrow> world \<Rightarrow> response \<times> world" where
  "DeleteDiaryEntry render now r w =
     (case ParseInt (pathId r) of
        Inl err \<Rightarrow> (HttpError ''Invalid ID'' StatusBadRequest, w)
      | Inr i \<Rightarrow> (WriteHeader [(''Content-Type'', ''text/html'')] StatusOK, w))"




section \<open>Schema migrations (package database)\<close>

definition schemaVersion :: int where
  "schemaVersion = 1"

definition wrap64 :: "int \<Rightarrow> int" where
  \<comment> \<open>Arithmetic on Go's 64-bit \<open>int\<close> wraps around.\<close>
  "wrap64 x = (x + 2 ^ 63) mod 2 ^ 64 - 2 ^ 63"

text \<open>The effect of each SQL statement the migration code issues.\<close>

definition createMigrationsTable :: "db_state \<Rightarrow> db_state" where
  \<comment> \<open>\<open>CREATE TABLE IF NOT EXISTS schema_migrations\<close>: an existing table keeps its rows.\<close>
  "createMigrationsTable db =
     (case schema_migrations db of
        None \<Rightarrow> db\<lparr>schema_migrations := Some []\<rparr>
      | Some vs \<Rightarrow> db)"

fun maxVersion :: "int list \<Rightarrow> int option" where
  \<comment> \<open>\<open>MAX(version)\<close>: NULL over no rows.\<close>
  "maxVersion [] = None"
| "maxVersion (v # vs) = (case maxVersion vs of None \<Rightarrow> Some v | Some m \<Rightarrow> Some (max v m))"

definition selectCurrentVersion :: "db_state \<Rightarrow> int option" where
  \<comment> \<open>\<open>SELECT COALESCE(MAX(version), 0) FROM schema_migrations\<close>; \<open>None\<close> when the table
      does not exist and the query fails.\<close>
  "selectCurrentVersion db =
     (case schema_migrations db of
        None \<Rightarrow> None
      | Some vs \<Rightarrow> (case maxVersion vs of None \<Rightarrow> Some 0 | Some m \<Rightarrow> Some m))"

definition int64_versions :: "db_state \<Rightarrow> bool" where
  \<comment> \<open>SQLite stores \<open>INTEGER\<close> values in 64 bits: the versions a real table can hold.\<close>
  "int64_versions db =
     (case schema_migrations db of
        None \<Rightarrow> True
      | Some vs \<Rightarrow> list_all (\<lambda>v. - (2 ^ 63) \<le> v \<and> v < 2 ^ 63) vs)"

definition migrationV1 :: "db_state \<Rightarrow> db_state" where
  \<comment> \<open>Three \<open>CREATE TABLE IF NOT EXISTS\<close> and six \<open>CREATE INDEX IF NOT EXISTS\<close>.\<close>
  "migrationV1 db =
     db\<lparr>objects := objects db \<union>
       { ''movies'', ''idx_movies_tmdb_id'', ''idx_movies_title'',
         ''diary_entries'', ''idx_diary_entries_movie_id'', ''idx_diary_entries_watched_at'',
         ''lookups'', ''idx_lookups_diary_entry_id'', ''idx_lookups_category'' }\<rparr>"

definition insertVersion :: "int \<Rightarrow> db_state \<Rightarrow> db_state option" where
  \<comment> \<open>\<open>INSERT INTO schema_migrations (version) VALUES (?)\<close>: fails without the table
      and on a version already there (primary key).\<close>
  "insertVersion v db =
     (case schema_migrations db of
        None \<Rightarrow> None
      | Some vs \<Rightarrow> if v \<in> set vs then None else Some (db\<lparr>schema_migrations := Some (vs @ [v])\<rparr>))"

text \<open>
  Every call on the database handle can also fail for reasons outside the model (I/O,
  locking, a table of another shape). A fault plan says which calls return an error.
  A transaction works on a private copy of the database: \<open>Commit\<close> installs the copy,
  \<open>Rollback\<close> (deferred in \<open>runMigration\<close>) and a failed \<open>Commit\<close> discard it.
\<close>

datatype db_call =
    ExecCreateMigrationsTable
  | QueryCurrentVersion
  | BeginTx int
  | ExecMigration int
  | ExecRecordVersion int
  | CommitTx int

type_synonym faults = "db_call \<Rightarrow> bool"

datatype StepError =
    BeginningTransaction
  | UnknownMigrationVersion int
  | ExecutingMigration
  | RecordingMigration
  | CommitFailed

datatype MigrateError =
    CreatingMigrationsTable
  | GettingCurrentVersion
  | RunningMigration int StepError

definition migrationFor :: "int \<Rightarrow> (db_state \<Rightarrow> db_state) option" where
  \<comment> \<open>The \<open>switch version\<close> of \<open>runMigration\<close>.\<close>
  "migrationFor version = (if version = 1 then Some migrationV1 else None)"

definition runMigration :: "faults \<Rightarrow> int \<Rightarrow> db_state \<Rightarrow> StepError option \<times> db_state" where
  \<comment> \<open>\<open>tx\<close>, \<open>tx1\<close>, \<open>tx2\<close> are the transaction's view of the database; every error
      return leaves through the deferred \<open>Rollback\<close> with the database as it was.\<close>
  "runMigration flt version db =
     (if flt (BeginTx version) then (Some BeginningTransaction, db)
      else
        (let tx = db in
         (case migrationFor version of
            None \<Rightarrow> (Some (UnknownMigrationVersion version), db)
          | Some migration \<Rightarrow>
              (if flt (ExecMigration version) then (Some ExecutingMigration, db)
               else
                 (let tx1 = migration tx in
                  (if flt (ExecRecordVersion version) then (Some RecordingMigration, db)
                   else
                     (case insertVersion version tx1 of
                        None \<Rightarrow> (Some RecordingMigration, db)
                      | Some tx2 \<Rightarrow>
                          (if flt (CommitTx version) then (Some CommitFailed, db)
                           else (None, tx2)))))))))"

text \<open>
  The loop \<open>for v := currentVersion + 1; v <= schemaVersion; v++\<close>. The third
  component collects the versions reported by the \<open>Applied migration\<close> log records.
\<close>

function migrateLoop ::
  "faults \<Rightarrow> int \<Rightarrow> db_state \<Rightarrow> int list \<Rightarrow> MigrateError option \<times> db_state \<times> int list" where
  "migrateLoop flt v db applied =
     (if v \<le> schemaVersion then
        (case runMigration flt v db of
           (Some e, db') \<Rightarrow> (Some (RunningMigration v e), db', applied)
         | (None, db') \<Rightarrow> migrateLoop flt (wrap64 (v + 1)) db' (applied @ [v]))
      else (None, db, applied))"
  by pat_completeness auto
termination
proof (relation "measure (\<lambda>(flt, v, db, applied). nat (schemaVersion + 1 - v))")
  show "wf (measure (\<lambda>(flt, v, db, applied). nat (schemaVersion + 1 - v)))"
    by simp
next
  fix flt :: faults and v :: int and db :: db_state and applied :: "int list"
    and x :: "StepError option \<times> db_state" and x1 :: "StepError option" and x2 :: db_state
  assume le: "v \<le> schemaVersion"
  have "- (2 ^ 63) \<le> wrap64 (v + 1)"
    by (simp add: wrap64_def)
  moreover have "v + 1 < - (2 ^ 63) \<or> wrap64 (v + 1) = v + 1"
  proof (cases "v + 1 < - (2 ^ 63)")
    case False
    then have "0 \<le> v + 1 + 2 ^ 63" and "v + 1 + 2 ^ 63 < 2 ^ 64"
      using le by (simp_all add: schemaVersion_def)
    then have "(v + 1 + 2 ^ 63) mod 2 ^ 64 = v + 1 + 2 ^ 63"
      by (rule mod_pos_pos_trivial)
    then show ?thesis
      by (simp add: wrap64_def)
  qed simp
  ultimately have "v < wrap64 (v + 1)"
    by linarith
  then show "((flt, wrap64 (v + 1), x2, applied @ [v]), flt, v, db, applied)
      \<in> measure (\<lambda>(flt, v, db, applied). nat (schemaVersion + 1 - v))"
    using le by simp
qed

definition Migrate :: "faults \<Rightarrow> db_state \<Rightarrow> MigrateError option \<times> db_state \<times> int list" where
  "Migrate flt db =
     (if flt ExecCreateMigrationsTable then (Some CreatingMigrationsTable, db, [])
      else
        let db1 = createMigrationsTable db in
        if flt QueryCurrentVersion then (Some GettingCurrentVersion, db1, [])
        else
          case selectCurrentVersion db1 of
            None \<Rightarrow> (Some GettingCurrentVersion, db1, [])
          | Some currentVersion \<Rightarrow> migrateLoop flt (wrap64 (currentVersion + 1)) db1 [])"

section \<open>Concrete inputs\<close>

text \<open>
  A stand-in for the templates, total and showing the rating and the notes of the entry
  it is given, and small requests, for running the handlers on concrete inputs.
\<close>

definition stars :: "DiaryEntry \<Rightarrow> string" where
  "stars e = replicate (nat (Rating e)) (CHR ''*'')"

definition plainRender :: renderer where
  "plainRender f =
     Some (case f of
        Index es flt \<Rightarrow> ''index '' @ concat (map stars es)
      | About \<Rightarrow> ''about''
      | MovieDetails e \<Rightarrow> ''details '' @ stars e @ '' '' @ Notes e
      | MovieCard e \<Rightarrow> ''card '' @ stars e
      | RecentEntries es flt \<Rightarrow> ''recent '' @ concat (map (\<lambda>e. stars e @ '' '') es)
      | DiaryNew \<Rightarrow> ''new''
      | DiaryEditForm e \<Rightarrow> ''edit '' @ stars e @ '' '' @ Notes e)"

definition emptyDb :: db_state where
  "emptyDb = \<lparr> schema_migrations = None, objects = {} \<rparr>"

definition emptyWorld :: world where
  "emptyWorld = \<lparr> database = emptyDb, events = [] \<rparr>"

definition idRequest :: "string \<Rightarrow> request" where
  "idRequest s = \<lparr> pathId = s, minRatingParam = [], form = None \<rparr>"

definition formRequest :: "string \<Rightarrow> (string \<times> string) list \<Rightarrow> request" where
  "formRequest s kvs = \<lparr> pathId = s, minRatingParam = [], form = Some kvs \<rparr>"

definition filterRequest :: "string \<Rightarrow> request" where
  "filterRequest s = \<lparr> pathId = [], minRatingParam = s, form = None \<rparr>"

definition noFaults :: faults where
  "noFaults c = False"

definition failAt :: "db_call \<Rightarrow> faults" where
  "failAt c c' = (c' = c)"

definition migratedDb :: db_state where
  \<comment> \<open>The empty database after migration 1.\<close>
  "migratedDb = (migrationV1 emptyDb)\<lparr>schema_migrations := Some [1]\<rparr>"

definition utc :: "time \<Rightarrow> int \<Rightarrow> int" where
  \<comment> \<open>The zone shift of a location with one UTC offset.\<close>
  "utc t days = 0"

definition clock0 :: clock where
  "clock0 = \<lparr> zoneShift = utc, reading1 = 0, reading2 = 1000, reading3 = 2000 \<rparr>"



section \<open>Auxiliary facts\<close>

lemmas parse_simps = ParseInt_def ParseUint_def isDigit_def digitVal_def maxUint64_def Atoi_def

lemmas status_simps = StatusOK_def StatusSeeOther_def StatusBadRequest_def StatusNotFound_def
  StatusInternalServerError_def

lemmas request_simps = idRequest_def formRequest_def filterRequest_def

lemma filterLoop_eq: "filterLoop k es acc = acc @ filter (\<lambda>e. k \<le> Rating e) es"
  by (induction es arbitrary: acc) simp_all

lemma getEntryByID_None_iff: "getEntryByID i es = None \<longleftrightarrow> i \<notin> DiaryEntry.ID ` set es"
  by (induction es) auto

lemma getEntryByID_Some: "getEntryByID i es = Some e \<Longrightarrow> e \<in> set es \<and> DiaryEntry.ID e = i"
  by (induction es) (auto split: if_splits)

lemma sample_ids: "map DiaryEntry.ID (getSampleEntries now) = [1, 2, 3]"
  by (simp add: getSampleEntries_def)

lemma sample_id_set: "DiaryEntry.ID ` set (getSampleEntries now) = {1, 2, 3}"
proof -
  have "DiaryEntry.ID ` set (getSampleEntries now) = set (map DiaryEntry.ID (getSampleEntries now))"
    by simp
  then show ?thesis
    by (simp only: sample_ids) simp
qed

lemma renderOr500_status:
  "StatusCode (renderOr500 render f) = (if render f = None then 500 else 200)"
  by (simp add: renderOr500_def status_simps split: option.splits)

lemma renderDiaryEntry_not_found_iff:
  assumes "ParseInt (pathId r) = Inr i"
  shows "StatusCode (fst (renderDiaryEntry render now f r w)) = StatusNotFound
           \<longleftrightarrow> i \<notin> {1, 2, 3}"
proof (cases "getEntryByID i (getSampleEntries now)")
  case None
  then have "i \<notin> {1, 2, 3}"
    by (simp only: getEntryByID_None_iff sample_id_set) simp
  with None assms show ?thesis
    by (simp add: renderDiaryEntry_def)
next
  case (Some e)
  then have "i \<in> {1, 2, 3}"
    using getEntryByID_None_iff [of i "getSampleEntries now"]
    by (simp only: sample_id_set) simp
  with Some assms show ?thesis
    by (simp add: renderDiaryEntry_def renderOr500_status status_simps)
qed

lemma Atoi_nonempty: "Atoi s = Inr k \<Longrightarrow> s \<noteq> []"
  by (auto simp: Atoi_def ParseInt_def)

subsection \<open>Decimal parsing\<close>

lemma ParseUint_loop_snoc:
  "ParseUint_loop a (s @ [c]) =
     (case ParseUint_loop a s of Inl e \<Rightarrow> Inl e | Inr m \<Rightarrow> ParseUint_loop m [c])"
  by (induction s arbitrary: a) simp_all

lemma ParseUint_loop_first_digit:
  "ParseUint_loop a (c # cs) = Inr n \<Longrightarrow> isDigit c"
  by (simp split: if_splits)

lemma digit_char:
  assumes "d < 10"
  shows "isDigit (char_of (48 + int d))" and "digitVal (char_of (48 + int d)) = int d"
proof -
  have "(48 + int d) mod 256 = 48 + int d"
    using assms by simp
  then have "(of_char (char_of (48 + int d)) :: int) = 48 + int d"
    by simp
  then show "isDigit (char_of (48 + int d))" and "digitVal (char_of (48 + int d)) = int d"
    using assms by (simp_all add: isDigit_def digitVal_def)
qed

lemma ParseUint_loop_complete:
  "int m \<le> maxUint64 \<Longrightarrow> \<exists>s. s \<noteq> [] \<and> ParseUint_loop 0 s = Inr (int m)"
proof (induction m rule: less_induct)
  case (less m)
  let ?c = "char_of (48 + int (m mod 10))"
  have dc: "isDigit ?c" "digitVal ?c = int (m mod 10)"
    using digit_char [of "m mod 10"] by simp_all
  show ?case
  proof (cases "m < 10")
    case True
    then have "ParseUint_loop 0 [?c] = Inr (int m)"
      using dc less.prems by (simp add: maxUint64_def)
    then show ?thesis
      by blast
  next
    case False
    then have "m div 10 < m"
      by simp
    moreover have small: "int (m div 10) \<le> maxUint64 div 10"
      using less.prems by (simp add: maxUint64_def zdiv_int)
    then have "int (m div 10) \<le> maxUint64"
      by (simp add: maxUint64_def)
    ultimately obtain s where s: "s \<noteq> []" "ParseUint_loop 0 s = Inr (int (m div 10))"
      using less.IH by blast
    have "int (m div 10) * 10 + int (m mod 10) = int m"
      by (simp add: zdiv_int zmod_int)
    then have "ParseUint_loop (int (m div 10)) [?c] = Inr (int m)"
      using dc small less.prems by simp
    with s have "ParseUint_loop 0 (s @ [?c]) = Inr (int m)"
      by (simp add: ParseUint_loop_snoc)
    then show ?thesis
      by blast
  qed
qed

lemma not_sign_if_digit: "isDigit c \<Longrightarrow> c \<noteq> CHR ''+'' \<and> c \<noteq> CHR ''-''"
  by (auto simp: isDigit_def)

lemma ParseInt_complete:
  assumes "- (2 ^ 63) \<le> k" and "k < 2 ^ 63"
  shows "\<exists>s. ParseInt s = Inr k"
proof (cases "0 \<le> k")
  case True
  then have "int (nat k) \<le> maxUint64"
    using assms by (simp add: maxUint64_def)
  then obtain s where s: "s \<noteq> []" "ParseUint_loop 0 s = Inr (int (nat k))"
    using ParseUint_loop_complete by blast
  then obtain c cs where cs: "s = c # cs"
    by (cases s) simp_all
  with s have "isDigit c"
    using ParseUint_loop_first_digit by blast
  then have "c \<noteq> CHR ''+'' \<and> c \<noteq> CHR ''-''"
    by (rule not_sign_if_digit)
  with s cs True assms have "ParseInt s = Inr k"
    by (simp add: ParseInt_def ParseUint_def)
  then show ?thesis
    by blast
next
  case False
  then have "int (nat (- k)) \<le> maxUint64"
    using assms by (simp add: maxUint64_def)
  then obtain s where s: "s \<noteq> []" "ParseUint_loop 0 s = Inr (int (nat (- k)))"
    using ParseUint_loop_complete by blast
  with False assms have "ParseInt (CHR ''-'' # s) = Inr k"
    by (simp add: ParseInt_def ParseUint_def)
  then show ?thesis
    by blast
qed

lemma ParseUint_loop_nonneg:
  "0 \<le> a \<Longrightarrow> ParseUint_loop a s = Inr n \<Longrightarrow> 0 \<le> n"
proof (induction s arbitrary: a)
  case Nil
  then show ?case by simp
next
  case (Cons c cs)
  from Cons.prems(2) have d: "isDigit c"
    and rest: "ParseUint_loop (a * 10 + digitVal c) cs = Inr n"
    by (simp_all split: if_splits)
  from d have "0 \<le> digitVal c"
    by (simp add: isDigit_def digitVal_def)
  with Cons.prems(1) have "0 \<le> a * 10 + digitVal c"
    by simp
  then show ?case
    using rest by (rule Cons.IH)
qed

lemma ParseUint_nonneg: "ParseUint s = Inr n \<Longrightarrow> 0 \<le> n"
  using ParseUint_loop_nonneg [of 0 s n] by (simp add: ParseUint_def split: if_splits)

lemma ParseInt_range:
  "ParseInt s = Inr k \<Longrightarrow> - (2 ^ 63) \<le> k \<and> k < 2 ^ 63"
  by (auto simp: ParseInt_def Let_def split: if_splits sum.splits NumError.splits
      dest: ParseUint_nonneg)

subsection \<open>The sample entries and the handlers\<close>

lemma sample_sorted:
  assumes "reading2 now + zoneShift now (reading2 now) (- 5)
             \<le> reading1 now + zoneShift now (reading1 now) (- 2) + 3 * nsPerDay"
    and "reading3 now + zoneShift now (reading3 now) (- 10)
             \<le> reading2 now + zoneShift now (reading2 now) (- 5) + 5 * nsPerDay"
  shows "sorted_wrt (\<lambda>a b. WatchedDate a \<ge> WatchedDate b) (getSampleEntries now)"
  using assms by (simp add: getSampleEntries_def AddDate_def nsPerDay_def)

lemma sample_filter_ids_sorted:
  "sorted (map DiaryEntry.ID (filter P (getSampleEntries now)))"
  by (simp add: getSampleEntries_def)

lemma sample_ratings: "map Rating (getSampleEntries now) = [5, 3, 4]"
  by (simp add: getSampleEntries_def)





subsection \<open>Migrations\<close>

lemma runMigration_error_unchanged:
  "runMigration flt v db = (Some e, d) \<Longrightarrow> d = db"
  by (auto simp: runMigration_def Let_def split: if_splits option.splits)

lemma runMigration_success:
  "runMigration flt v db = (None, d) \<Longrightarrow>
     v = 1 \<and> insertVersion 1 (migrationV1 db) = Some d
     \<and> \<not> flt (BeginTx 1) \<and> \<not> flt (ExecMigration 1)
     \<and> \<not> flt (ExecRecordVersion 1) \<and> \<not> flt (CommitTx 1)"
  by (auto simp: runMigration_def migrationFor_def Let_def split: if_splits option.splits)

lemma wrap64_2: "wrap64 2 = 2"
  by (simp add: wrap64_def)

lemma migrateLoop_unfold:
  "migrateLoop flt v db a =
     (if v \<le> 1 then
        (case runMigration flt v db of
           (Some e, d) \<Rightarrow> (Some (RunningMigration v e), d, a)
         | (None, d) \<Rightarrow> (None, d, a @ [v]))
      else (None, db, a))"
proof (cases "v \<le> 1")
  case False
  then show ?thesis
    by (subst migrateLoop.simps) (simp add: schemaVersion_def)
next
  case True
  obtain r d where rd: "runMigration flt v db = (r, d)"
    by (cases "runMigration flt v db")
  show ?thesis
  proof (cases r)
    case None
    with rd have "v = 1"
      using runMigration_success by blast
    moreover have "migrateLoop flt 2 d (a @ [1]) = (None, d, a @ [1])"
      by (subst migrateLoop.simps) (simp add: schemaVersion_def)
    ultimately show ?thesis
      using rd None True
      by (subst migrateLoop.simps) (simp add: schemaVersion_def wrap64_2)
  next
    case (Some e)
    then show ?thesis
      using rd True by (subst migrateLoop.simps) (simp add: schemaVersion_def)
  qed
qed

lemma createMigrationsTable_idem:
  "schema_migrations db = Some vs \<Longrightarrow> createMigrationsTable db = db"
  by (simp add: createMigrationsTable_def)

lemma createMigrationsTable_has_table:
  "schema_migrations (createMigrationsTable db) \<noteq> None"
  by (simp add: createMigrationsTable_def split: option.splits)


lemma Migrate_unfold:
  "Migrate flt db =
     (if flt ExecCreateMigrationsTable then (Some CreatingMigrationsTable, db, [])
      else if flt QueryCurrentVersion
        then (Some GettingCurrentVersion, createMigrationsTable db, [])
      else
        (case selectCurrentVersion (createMigrationsTable db) of
           None \<Rightarrow> (Some GettingCurrentVersion, createMigrationsTable db, [])
         | Some cur \<Rightarrow>
             (if wrap64 (cur + 1) \<le> 1 then
                (case runMigration flt (wrap64 (cur + 1)) (createMigrationsTable db) of
                   (Some e, d) \<Rightarrow> (Some (RunningMigration (wrap64 (cur + 1)) e), d, [])
                 | (None, d) \<Rightarrow> (None, d, [wrap64 (cur + 1)]))
              else (None, createMigrationsTable db, []))))"
  by (auto simp: Migrate_def Let_def migrateLoop_unfold [of flt _ _ "[]"]
      simp del: migrateLoop.simps split: option.splits prod.splits)

lemma selectCurrentVersion_Some:
  "schema_migrations db = Some vs \<Longrightarrow>
     selectCurrentVersion db = Some (case maxVersion vs of None \<Rightarrow> 0 | Some m \<Rightarrow> m)"
  by (simp add: selectCurrentVersion_def split: option.splits)

lemma insertVersion_Some:
  "insertVersion v db = Some d \<Longrightarrow>
     \<exists>vs. schema_migrations db = Some vs \<and> v \<notin> set vs
       \<and> d = db\<lparr>schema_migrations := Some (vs @ [v])\<rparr>"
  by (auto simp: insertVersion_def split: option.splits if_splits)

lemma schema_migrations_migrationV1 [simp]:
  "schema_migrations (migrationV1 db) = schema_migrations db"
  by (simp add: migrationV1_def)

lemma Migrate_success_cases:
  assumes "Migrate flt db = (None, db1, a)"
  shows "\<exists>vs cur.
      schema_migrations (createMigrationsTable db) = Some vs
      \<and> selectCurrentVersion (createMigrationsTable db) = Some cur
      \<and> (wrap64 (cur + 1) = 1 \<and> 1 \<notin> set vs
           \<and> db1 = (migrationV1 (createMigrationsTable db))\<lparr>schema_migrations := Some (vs @ [1])\<rparr>
           \<and> a = [1]
         \<or> 1 < wrap64 (cur + 1) \<and> db1 = createMigrationsTable db \<and> a = [])"
proof -
  let ?dbc = "createMigrationsTable db"
  from assms have nf: "\<not> flt ExecCreateMigrationsTable" "\<not> flt QueryCurrentVersion"
    by (auto simp: Migrate_unfold split: if_splits)
  from assms nf obtain cur where cur: "selectCurrentVersion ?dbc = Some cur"
    by (auto simp: Migrate_unfold split: option.splits)
  then obtain vs where vs: "schema_migrations ?dbc = Some vs"
    by (auto simp: selectCurrentVersion_def split: option.splits)
  show ?thesis
  proof (cases "wrap64 (cur + 1) \<le> 1")
    case False
    with assms nf cur have "db1 = ?dbc" "a = []"
      by (simp_all add: Migrate_unfold)
    with False vs cur show ?thesis
      by simp
  next
    case True
    with assms nf cur have run: "runMigration flt (wrap64 (cur + 1)) ?dbc = (None, db1)"
      and a: "a = [wrap64 (cur + 1)]"
      by (auto simp: Migrate_unfold split: prod.splits option.splits)
    from runMigration_success [OF run] have v: "wrap64 (cur + 1) = 1"
      and ins: "insertVersion 1 (migrationV1 ?dbc) = Some db1"
      by simp_all
    from insertVersion_Some [OF ins] vs have "1 \<notin> set vs"
      and "db1 = (migrationV1 ?dbc)\<lparr>schema_migrations := Some (vs @ [1])\<rparr>"
      by simp_all
    with vs cur v a show ?thesis
      by simp
  qed
qed

lemma Migrate_again_state:
  assumes "Migrate flt1 db = (None, db1, a1)"
  shows "snd (Migrate flt2 db1) = (db1, [])"
proof -
  from Migrate_success_cases [OF assms] obtain vs cur where
    vs: "schema_migrations (createMigrationsTable db) = Some vs"
    and cur: "selectCurrentVersion (createMigrationsTable db) = Some cur"
    and cases: "wrap64 (cur + 1) = 1 \<and> 1 \<notin> set vs
           \<and> db1 = (migrationV1 (createMigrationsTable db))\<lparr>schema_migrations := Some (vs @ [1])\<rparr>
           \<and> a1 = [1]
         \<or> 1 < wrap64 (cur + 1) \<and> db1 = createMigrationsTable db \<and> a1 = []"
    by blast
  have "\<exists>vs1 cur1. schema_migrations db1 = Some vs1 \<and> selectCurrentVersion db1 = Some cur1
      \<and> (wrap64 (cur1 + 1) = 1 \<longrightarrow> 1 \<in> set vs1)"
    using cases
  proof
    assume "wrap64 (cur + 1) = 1 \<and> 1 \<notin> set vs
           \<and> db1 = (migrationV1 (createMigrationsTable db))\<lparr>schema_migrations := Some (vs @ [1])\<rparr>
           \<and> a1 = [1]"
    then have "schema_migrations db1 = Some (vs @ [1])"
      by simp
    then show ?thesis
      by (simp add: selectCurrentVersion_def split: option.splits)
  next
    assume "1 < wrap64 (cur + 1) \<and> db1 = createMigrationsTable db \<and> a1 = []"
    with vs cur show ?thesis
      by simp
  qed
  then obtain vs1 cur1 where vs1: "schema_migrations db1 = Some vs1"
    and cur1: "selectCurrentVersion db1 = Some cur1"
    and blocked: "wrap64 (cur1 + 1) = 1 \<longrightarrow> 1 \<in> set vs1"
    by blast
  have same: "createMigrationsTable db1 = db1"
    using vs1 by (rule createMigrationsTable_idem)
  have step: "snd (runMigration flt2 v db1) = db1" if "v \<le> 1" "v = 1 \<longrightarrow> 1 \<in> set vs1" for v
  proof (cases "runMigration flt2 v db1")
    case (Pair r d)
    show ?thesis
    proof (cases r)
      case None
      with Pair have "v = 1" and "insertVersion 1 (migrationV1 db1) = Some d"
        using runMigration_success by blast+
      with that vs1 show ?thesis
        by (auto dest: insertVersion_Some)
    next
      case (Some e)
      with Pair show ?thesis
        by (simp add: runMigration_error_unchanged)
    qed
  qed
  have fails: "fst (runMigration flt2 v db1) \<noteq> None" if "v \<le> 1" "v = 1 \<longrightarrow> 1 \<in> set vs1" for v
  proof
    assume "fst (runMigration flt2 v db1) = None"
    then obtain d where "runMigration flt2 v db1 = (None, d)"
      by (cases "runMigration flt2 v db1") simp
    then have "v = 1" and "insertVersion 1 (migrationV1 db1) = Some d"
      using runMigration_success by blast+
    with that vs1 show False
      by (auto dest: insertVersion_Some)
  qed
  show ?thesis
  proof (cases "wrap64 (cur1 + 1) \<le> 1")
    case False
    then show ?thesis
      using cur1 by (simp add: Migrate_unfold same)
  next
    case True
    obtain r d where rd: "runMigration flt2 (wrap64 (cur1 + 1)) db1 = (r, d)"
      by (cases "runMigration flt2 (wrap64 (cur1 + 1)) db1")
    from step [OF True blocked] rd have "d = db1"
      by simp
    moreover from fails [OF True blocked] rd obtain e where "r = Some e"
      by (cases r) simp_all
    ultimately show ?thesis
      using cur1 True rd by (simp add: Migrate_unfold same)
  qed
qed


lemma maxVersion_snoc:
  "maxVersion (vs @ [x]) = Some (case maxVersion vs of None \<Rightarrow> x | Some m \<Rightarrow> max m x)"
  by (induction vs) (auto split: option.splits)

lemma maxVersion_mem: "maxVersion vs = Some m \<Longrightarrow> m \<in> set vs"
  by (induction vs arbitrary: m) (auto split: option.splits simp: max_def)

lemma wrap64_succ_is_1:
  assumes "- (2 ^ 63) \<le> c" and "c < 2 ^ 63" and "wrap64 (c + 1) = 1"
  shows "c = 0"
proof (cases "c + 1 < 2 ^ 63")
  case True
  with assms(1) have "0 \<le> c + 1 + 2 ^ 63" and "c + 1 + 2 ^ 63 < 2 ^ 64"
    by simp_all
  then have "(c + 1 + 2 ^ 63) mod 2 ^ 64 = c + 1 + 2 ^ 63"
    by (rule mod_pos_pos_trivial)
  with assms(3) show ?thesis
    by (simp add: wrap64_def)
next
  case False
  with assms(2) have "c = 2 ^ 63 - 1"
    by simp
  with assms(3) show ?thesis
    by (simp add: wrap64_def)
qed

lemma Migrate_again_succeeds:
  assumes ok: "Migrate flt1 db = (None, db1, a1)"
    and range: "int64_versions db"
    and nf: "\<not> flt2 ExecCreateMigrationsTable" "\<not> flt2 QueryCurrentVersion"
  shows "Migrate flt2 db1 = (None, db1, [])"
proof -
  let ?dbc = "createMigrationsTable db"
  from Migrate_success_cases [OF ok] obtain vs cur where
    vs: "schema_migrations ?dbc = Some vs"
    and cur: "selectCurrentVersion ?dbc = Some cur"
    and cases: "wrap64 (cur + 1) = 1 \<and> 1 \<notin> set vs
           \<and> db1 = (migrationV1 ?dbc)\<lparr>schema_migrations := Some (vs @ [1])\<rparr>
           \<and> a1 = [1]
         \<or> 1 < wrap64 (cur + 1) \<and> db1 = ?dbc \<and> a1 = []"
    by blast
  have vs_range: "list_all (\<lambda>v. - (2 ^ 63) \<le> v \<and> v < 2 ^ 63) vs"
    using range vs by (auto simp: int64_versions_def createMigrationsTable_def split: option.splits)
  have cur_eq: "cur = (case maxVersion vs of None \<Rightarrow> 0 | Some m \<Rightarrow> m)"
    using cur selectCurrentVersion_Some [OF vs] by simp
  have cur_range: "- (2 ^ 63) \<le> cur \<and> cur < 2 ^ 63"
  proof (cases "maxVersion vs")
    case None
    with cur_eq show ?thesis by simp
  next
    case (Some m)
    then have "m \<in> set vs" by (rule maxVersion_mem)
    with vs_range Some cur_eq show ?thesis
      by (simp add: list_all_iff)
  qed
  have "\<exists>cur1. schema_migrations db1 \<noteq> None \<and> selectCurrentVersion db1 = Some cur1
      \<and> 1 < wrap64 (cur1 + 1)"
    using cases
  proof
    assume a: "wrap64 (cur + 1) = 1 \<and> 1 \<notin> set vs
           \<and> db1 = (migrationV1 ?dbc)\<lparr>schema_migrations := Some (vs @ [1])\<rparr>
           \<and> a1 = [1]"
    then have "cur = 0"
      using cur_range wrap64_succ_is_1 by blast
    with cur_eq have "(case maxVersion vs of None \<Rightarrow> 1 | Some m \<Rightarrow> max m 1) = (1::int)"
      by (simp split: option.splits)
    moreover from a have "schema_migrations db1 = Some (vs @ [1])"
      by simp
    ultimately have "selectCurrentVersion db1 = Some 1" and "schema_migrations db1 \<noteq> None"
      by (simp_all add: selectCurrentVersion_def maxVersion_snoc)
    then show ?thesis
      by (simp add: wrap64_2)
  next
    assume "1 < wrap64 (cur + 1) \<and> db1 = ?dbc \<and> a1 = []"
    with vs cur show ?thesis
      by simp
  qed
  then obtain cur1 where "schema_migrations db1 \<noteq> None"
    and "selectCurrentVersion db1 = Some cur1" and "1 < wrap64 (cur1 + 1)"
    by blast
  moreover from this have "createMigrationsTable db1 = db1"
    by (auto intro: createMigrationsTable_idem)
  ultimately show ?thesis
    using nf by (simp add: Migrate_unfold)
qed

lemma Migrate_applied_recorded:
  assumes "Migrate flt db = (None, db1, a)"
  shows "\<exists>vs1. schema_migrations db1 = Some vs1 \<and> set a \<subseteq> set vs1"
  using Migrate_success_cases [OF assms] by auto

lemma Migrate_at_current_version:
  assumes "schema_migrations db = Some vs" and "maxVersion vs = Some schemaVersion"
  shows "snd (Migrate flt db) = (db, [])"
    and "\<not> flt ExecCreateMigrationsTable \<Longrightarrow> \<not> flt QueryCurrentVersion
           \<Longrightarrow> Migrate flt db = (None, db, [])"
proof -
  have same: "createMigrationsTable db = db"
    using assms(1) by (rule createMigrationsTable_idem)
  have cur: "selectCurrentVersion db = Some 1"
    using selectCurrentVersion_Some [OF assms(1)] assms(2) by (simp add: schemaVersion_def)
  show "snd (Migrate flt db) = (db, [])"
    by (simp add: Migrate_unfold same cur wrap64_2)
  show "\<not> flt ExecCreateMigrationsTable \<Longrightarrow> \<not> flt QueryCurrentVersion
           \<Longrightarrow> Migrate flt db = (None, db, [])"
    by (simp add: Migrate_unfold same cur wrap64_2)
qed

lemma runMigration_fault:
  assumes "flt (BeginTx v) \<or> flt (ExecMigration v) \<or> flt (ExecRecordVersion v) \<or> flt (CommitTx v)"
  shows "fst (runMigration flt v db) \<noteq> None \<and> snd (runMigration flt v db) = db"
  using assms
  by (auto simp: runMigration_def Let_def split: option.splits)

lemma Migrate_step_error:
  assumes "Migrate flt db = (Some (RunningMigration v e), d2, a)"
  shows "d2 = createMigrationsTable db \<and> a = []
       \<and> runMigration flt v (createMigrationsTable db) = (Some e, createMigrationsTable db)"
proof -
  let ?dbc = "createMigrationsTable db"
  from assms have nf: "\<not> flt ExecCreateMigrationsTable" "\<not> flt QueryCurrentVersion"
    by (auto simp: Migrate_unfold split: if_splits)
  from assms nf obtain cur where cur: "selectCurrentVersion ?dbc = Some cur"
    by (auto simp: Migrate_unfold split: option.splits)
  from assms nf cur have le: "wrap64 (cur + 1) \<le> 1"
    by (auto simp: Migrate_unfold split: if_splits)
  obtain r d where rd: "runMigration flt (wrap64 (cur + 1)) ?dbc = (r, d)"
    by (cases "runMigration flt (wrap64 (cur + 1)) ?dbc")
  from assms nf cur le rd have "r = Some e" and "v = wrap64 (cur + 1)" and "d2 = d" and "a = []"
    by (auto simp: Migrate_unfold split: option.splits)
  moreover from this rd have "d = ?dbc"
    using runMigration_error_unchanged by blast
  ultimately show ?thesis
    using rd by simp
qed

lemma Migrate_error_state:
  assumes "Migrate flt db = (Some err, d2, a)"
  shows "(d2 = db \<or> d2 = createMigrationsTable db) \<and> a = []"
proof (cases err)
  case CreatingMigrationsTable
  with assms show ?thesis
    by (auto simp: Migrate_unfold split: if_splits option.splits prod.splits)
next
  case GettingCurrentVersion
  with assms show ?thesis
    by (auto simp: Migrate_unfold split: if_splits option.splits prod.splits)
next
  case (RunningMigration v e)
  with assms show ?thesis
    using Migrate_step_error by blast
qed

lemma Migrate_same_plan_idem:
  "fst (snd (Migrate flt (fst (snd (Migrate flt db))))) = fst (snd (Migrate flt db))"
proof (cases "Migrate flt db")
  case (fields res d a)
  show ?thesis
  proof (cases res)
    case None
    with fields have "snd (Migrate flt d) = (d, [])"
      using Migrate_again_state by blast
    with fields show ?thesis
      by simp
  next
    case (Some err)
    let ?dbc = "createMigrationsTable db"
    have same: "createMigrationsTable ?dbc = ?dbc"
      by (simp add: createMigrationsTable_def split: option.splits)
    show ?thesis
    proof (cases "flt ExecCreateMigrationsTable")
      case True
      then show ?thesis
        by (simp add: Migrate_unfold)
    next
      case nc: False
      show ?thesis
      proof (cases "flt QueryCurrentVersion")
        case True
        with nc show ?thesis
          by (simp add: Migrate_unfold same)
      next
        case nq: False
        show ?thesis
        proof (cases "selectCurrentVersion ?dbc")
          case None
          with nc nq show ?thesis
            by (simp add: Migrate_unfold same)
        next
          case (Some cur)
          show ?thesis
          proof (cases "wrap64 (cur + 1) \<le> 1")
            case False
            with nc nq Some show ?thesis
              by (simp add: Migrate_unfold same)
          next
            case True
            obtain r d' where rd: "runMigration flt (wrap64 (cur + 1)) ?dbc = (r, d')"
              by (cases "runMigration flt (wrap64 (cur + 1)) ?dbc")
            from fields \<open>res = Some err\<close> nc nq Some True rd obtain e where "r = Some e"
              by (cases r) (auto simp: Migrate_unfold)
            moreover from this rd have "d' = ?dbc"
              using runMigration_error_unchanged by blast
            ultimately show ?thesis
              using nc nq Some True rd by (simp add: Migrate_unfold same)
          qed
        qed
      qed
    qed
  qed
qed

lemma Migrate_step_fails:
  assumes "\<not> flt ExecCreateMigrationsTable" and "\<not> flt QueryCurrentVersion"
    and "selectCurrentVersion (createMigrationsTable db0) = Some cur"
    and "wrap64 (cur + 1) \<le> schemaVersion"
    and "fst (runMigration flt (wrap64 (cur + 1)) (createMigrationsTable db0)) = Some e"
  shows "Migrate flt db0
           = (Some (RunningMigration (wrap64 (cur + 1)) e), createMigrationsTable db0, [])"
proof -
  let ?dbc = "createMigrationsTable db0"
  obtain d where rd: "runMigration flt (wrap64 (cur + 1)) ?dbc = (Some e, d)"
    using assms(5) by (cases "runMigration flt (wrap64 (cur + 1)) ?dbc") simp
  then have "d = ?dbc"
    by (rule runMigration_error_unchanged)
  with rd assms(1-4) show ?thesis
    by (simp add: Migrate_unfold schemaVersion_def)
qed

lemma Migrate_step_fault:
  assumes "\<not> flt ExecCreateMigrationsTable" and "\<not> flt QueryCurrentVersion"
    and "selectCurrentVersion (createMigrationsTable db0) = Some cur"
    and "wrap64 (cur + 1) \<le> schemaVersion"
    and "flt (BeginTx (wrap64 (cur + 1))) \<or> flt (ExecMigration (wrap64 (cur + 1)))
         \<or> flt (ExecRecordVersion (wrap64 (cur + 1))) \<or> flt (CommitTx (wrap64 (cur + 1)))"
  shows "\<exists>e. Migrate flt db0
           = (Some (RunningMigration (wrap64 (cur + 1)) e), createMigrationsTable db0, [])"
proof -
  from runMigration_fault [OF assms(5)]
  obtain e where "fst (runMigration flt (wrap64 (cur + 1)) (createMigrationsTable db0)) = Some e"
    by blast
  from Migrate_step_fails [OF assms(1-4) this] show ?thesis
    by blast
qed

lemmas migrate_simps = Migrate_def runMigration_def migrationFor_def insertVersion_def
  createMigrationsTable_def selectCurrentVersion_def schemaVersion_def wrap64_def
  emptyDb_def migratedDb_def migrationV1_def noFaults_def failAt_def Let_def

section \<open>Creating an entry\<close>

text \<open>
  C1 (as stated, refuted): creating an entry with a rating outside 1..5 is said to fail
  with status 400. The form below carries the rating 9, which parses as the integer 9,
  and \<open>CreateDiaryEntry\<close> answers with the redirect 303.
\<close>

theorem create_rating_counterexample:
  "FormValue (formRequest [] [(''rating'', ''9'')]) ''rating'' = ''9''
   \<and> ParseInt ''9'' = Inr 9
   \<and> StatusCode (fst (CreateDiaryEntry plainRender clock0 (formRequest [] [(''rating'', ''9'')])
        emptyWorld)) = 303"
  by (simp add: CreateDiaryEntry_def FormValue_def parse_simps request_simps status_simps)

text \<open>
  C1 (amended): \<open>CreateDiaryEntry\<close> validates nothing. Whatever the rating field holds,
  it answers with the redirect 303 to \<open>/\<close> as soon as the form parses, leaves the
  database alone and writes one log record with the submitted fields; it answers 400,
  with no effect, only when the form cannot be parsed.
\<close>

theorem create_ignores_rating:
  "(form r = None \<longrightarrow>
      CreateDiaryEntry render now r w = (HttpError ''Failed to parse form'' StatusBadRequest, w))
   \<and> (form r \<noteq> None \<longrightarrow>
      fst (CreateDiaryEntry render now r w) = Redirect ''/'' StatusSeeOther
      \<and> database (snd (CreateDiaryEntry render now r w)) = database w
      \<and> events (snd (CreateDiaryEntry render now r w))
          = events w @ [LogInfo ''Received new diary entry'' (formAttrs r)])"
  by (auto simp: CreateDiaryEntry_def emit_def split: option.splits)

theorem create_ignores_rating_witness:
  "form (formRequest [] [(''rating'', ''0'')]) \<noteq> None
   \<and> fst (CreateDiaryEntry plainRender clock0 (formRequest [] [(''rating'', ''0'')]) emptyWorld)
       = Redirect ''/'' 303
   \<and> form (idRequest []) = None
   \<and> StatusCode (fst (CreateDiaryEntry plainRender clock0 (idRequest []) emptyWorld)) = 400"
  using create_ignores_rating [of "formRequest [] [(''rating'', ''0'')]" plainRender clock0 emptyWorld]
    create_ignores_rating [of "idRequest []" plainRender clock0 emptyWorld]
  by (simp add: request_simps status_simps)

section \<open>Deleting an entry, then fetching it\<close>

text \<open>
  C2 (as stated, refuted): a fetch after a completed delete is said to answer 404. The
  delete of entry 1 completes with status 200 and changes nothing, and both fetches of
  entry 1 after it answer 200.
\<close>

theorem fetch_after_delete_counterexample:
  "DeleteDiaryEntry plainRender clock0 (idRequest ''1'') emptyWorld
       = (WriteHeader [(''Content-Type'', ''text/html'')] 200, emptyWorld)
   \<and> StatusCode (fst (GetDiaryEntry plainRender clock0 (idRequest ''1'')
        (snd (DeleteDiaryEntry plainRender clock0 (idRequest ''1'') emptyWorld)))) = 200
   \<and> StatusCode (fst (GetDiaryEntryShort plainRender clock0 (idRequest ''1'')
        (snd (DeleteDiaryEntry plainRender clock0 (idRequest ''1'') emptyWorld)))) = 200"
  by (simp add: DeleteDiaryEntry_def GetDiaryEntry_def GetDiaryEntryShort_def renderDiaryEntry_def
      parse_simps request_simps status_simps getSampleEntries_def renderOr500_def plainRender_def)

text \<open>
  C2 (amended): for every well-formed id, \<open>DeleteDiaryEntry\<close> answers 200 with an empty
  body and removes nothing: a fetch of the same id after the delete, by either fetch
  handler and at any later time, answers exactly what it answers without the delete,
  and that answer is 404 precisely when the id is none of the sample ids 1, 2, 3.
\<close>

theorem delete_leaves_fetch_unchanged:
  assumes "ParseInt (pathId r) = Inr i"
  shows "DeleteDiaryEntry render now r w
           = (WriteHeader [(''Content-Type'', ''text/html'')] StatusOK, w)
       \<and> GetDiaryEntry render now' r (snd (DeleteDiaryEntry render now r w))
           = GetDiaryEntry render now' r w
       \<and> GetDiaryEntryShort render now' r (snd (DeleteDiaryEntry render now r w))
           = GetDiaryEntryShort render now' r w
       \<and> (StatusCode (fst (GetDiaryEntry render now' r (snd (DeleteDiaryEntry render now r w))))
            = StatusNotFound \<longleftrightarrow> i \<notin> {1, 2, 3})
       \<and> (StatusCode (fst (GetDiaryEntryShort render now' r (snd (DeleteDiaryEntry render now r w))))
            = StatusNotFound \<longleftrightarrow> i \<notin> {1, 2, 3})"
proof -
  have del: "DeleteDiaryEntry render now r w
      = (WriteHeader [(''Content-Type'', ''text/html'')] StatusOK, w)"
    using assms by (simp add: DeleteDiaryEntry_def)
  show ?thesis
    using renderDiaryEntry_not_found_iff [OF assms]
    by (simp add: del GetDiaryEntry_def GetDiaryEntryShort_def)
qed

theorem delete_leaves_fetch_unchanged_witness:
  "ParseInt (pathId (idRequest ''2'')) = Inr 2
   \<and> StatusCode (fst (GetDiaryEntry plainRender clock0 (idRequest ''2'')
        (snd (DeleteDiaryEntry plainRender clock0 (idRequest ''2'') emptyWorld)))) \<noteq> 404"
proof -
  have h: "ParseInt (pathId (idRequest ''2'')) = Inr 2"
    by (simp add: parse_simps request_simps)
  have "StatusCode (fst (GetDiaryEntry plainRender clock0 (idRequest ''2'')
        (snd (DeleteDiaryEntry plainRender clock0 (idRequest ''2'') emptyWorld)))) = StatusNotFound
      \<longleftrightarrow> (2::int) \<notin> {1, 2, 3}"
    using delete_leaves_fetch_unchanged [OF h, of plainRender clock0 emptyWorld clock0] by blast
  then have "StatusCode (fst (GetDiaryEntry plainRender clock0 (idRequest ''2'')
        (snd (DeleteDiaryEntry plainRender clock0 (idRequest ''2'') emptyWorld)))) \<noteq> 404"
    by (simp add: status_simps)
  with h show ?thesis
    by blast
qed

section \<open>Malformed path identifiers\<close>

text \<open>
  C5: when the path identifier does not parse, each of the five handlers that take an
  id answers \<open>Invalid ID\<close> with status 400 and returns the world it was given: no read
  of the entry source is recorded, no log record is written and the database is the
  same.
\<close>

theorem invalid_id_rejected_before_storage:
  assumes "ParseInt (pathId r) = Inl err"
  shows "GetDiaryEntry render now r w = (HttpError ''Invalid ID'' StatusBadRequest, w)
       \<and> GetDiaryEntryShort render now r w = (HttpError ''Invalid ID'' StatusBadRequest, w)
       \<and> EditDiaryEntryForm render now r w = (HttpError ''Invalid ID'' StatusBadRequest, w)
       \<and> EditDiaryEntry render now r w = (HttpError ''Invalid ID'' StatusBadRequest, w)
       \<and> DeleteDiaryEntry render now r w = (HttpError ''Invalid ID'' StatusBadRequest, w)"
  using assms
  by (simp add: GetDiaryEntry_def GetDiaryEntryShort_def renderDiaryEntry_def
      EditDiaryEntryForm_def EditDiaryEntry_def DeleteDiaryEntry_def)

theorem invalid_id_rejected_witness:
  "ParseInt (pathId (idRequest ''abc'')) = Inl ErrSyntax
   \<and> GetDiaryEntry plainRender clock0 (idRequest ''abc'') emptyWorld
       = (HttpError ''Invalid ID'' 400, emptyWorld)
   \<and> events (snd (DeleteDiaryEntry plainRender clock0 (idRequest ''abc'') emptyWorld)) = []"
proof -
  have h: "ParseInt (pathId (idRequest ''abc'')) = Inl ErrSyntax"
    by (simp add: parse_simps request_simps)
  show ?thesis
    using h invalid_id_rejected_before_storage [OF h, of plainRender clock0 emptyWorld]
    by (simp add: status_simps emptyWorld_def)
qed

section \<open>Fetching with a well-formed id\<close>

text \<open>
  C10: when the path identifier parses as a signed 64-bit decimal integer, neither
  fetch handler answers 400; when no sample entry has the parsed id, both answer
  \<open>Entry not found\<close> with status 404, after one read of the entry source. The witness
  runs the identifiers \<open>0\<close>, \<open>-1\<close> and \<open>+7\<close>.
\<close>

theorem parsed_id_never_bad_request:
  assumes "ParseInt (pathId r) = Inr i"
  shows "StatusCode (fst (GetDiaryEntry render now r w)) \<noteq> StatusBadRequest
       \<and> StatusCode (fst (GetDiaryEntryShort render now r w)) \<noteq> StatusBadRequest
       \<and> (i \<notin> DiaryEntry.ID ` set (getSampleEntries now) \<longrightarrow>
            GetDiaryEntry render now r w
              = (HttpError ''Entry not found'' StatusNotFound, emit ReadSampleEntries w)
            \<and> GetDiaryEntryShort render now r w
              = (HttpError ''Entry not found'' StatusNotFound, emit ReadSampleEntries w))"
proof -
  have "StatusCode (fst (renderDiaryEntry render now f r w)) \<noteq> StatusBadRequest" for f
    using assms
    by (simp add: renderDiaryEntry_def renderOr500_status status_simps Let_def split: option.splits)
  moreover have "i \<notin> DiaryEntry.ID ` set (getSampleEntries now) \<longrightarrow>
      renderDiaryEntry render now f r w
        = (HttpError ''Entry not found'' StatusNotFound, emit ReadSampleEntries w)" for f
    using assms getEntryByID_None_iff [of i "getSampleEntries now"]
    by (auto simp: renderDiaryEntry_def Let_def)
  ultimately show ?thesis
    by (simp add: GetDiaryEntry_def GetDiaryEntryShort_def)
qed

theorem parsed_id_never_bad_request_witness:
  "ParseInt (pathId (idRequest ''0'')) = Inr 0
   \<and> StatusCode (fst (GetDiaryEntry plainRender clock0 (idRequest ''0'') emptyWorld)) = 404
   \<and> ParseInt (pathId (idRequest ''-1'')) = Inr (- 1)
   \<and> StatusCode (fst (GetDiaryEntry plainRender clock0 (idRequest ''-1'') emptyWorld)) = 404
   \<and> ParseInt (pathId (idRequest ''+7'')) = Inr 7
   \<and> StatusCode (fst (GetDiaryEntryShort plainRender clock0 (idRequest ''+7'') emptyWorld)) = 404"
proof -
  have h0: "ParseInt (pathId (idRequest ''0'')) = Inr 0"
    and h1: "ParseInt (pathId (idRequest ''-1'')) = Inr (- 1)"
    and h7: "ParseInt (pathId (idRequest ''+7'')) = Inr 7"
    by (simp_all add: parse_simps request_simps)
  have n: "(0::int) \<notin> DiaryEntry.ID ` set (getSampleEntries clock0)"
    "(- 1::int) \<notin> DiaryEntry.ID ` set (getSampleEntries clock0)"
    "(7::int) \<notin> DiaryEntry.ID ` set (getSampleEntries clock0)"
    by (simp_all only: sample_id_set) simp_all
  have "GetDiaryEntry plainRender clock0 (idRequest ''0'') emptyWorld
      = (HttpError ''Entry not found'' StatusNotFound, emit ReadSampleEntries emptyWorld)"
    using parsed_id_never_bad_request [OF h0, of plainRender clock0 emptyWorld] n by blast
  moreover have "GetDiaryEntry plainRender clock0 (idRequest ''-1'') emptyWorld
      = (HttpError ''Entry not found'' StatusNotFound, emit ReadSampleEntries emptyWorld)"
    using parsed_id_never_bad_request [OF h1, of plainRender clock0 emptyWorld] n by blast
  moreover have "GetDiaryEntryShort plainRender clock0 (idRequest ''+7'') emptyWorld
      = (HttpError ''Entry not found'' StatusNotFound, emit ReadSampleEntries emptyWorld)"
    using parsed_id_never_bad_request [OF h7, of plainRender clock0 emptyWorld] n by blast
  ultimately show ?thesis
    using h0 h1 h7 by (simp add: status_simps)
qed

section \<open>Listing with a minimum rating\<close>

text \<open>
  C4 (as stated, refuted): for every integer \<open>k\<close> the list is said to hold exactly the
  entries rated at least \<open>k\<close>. For \<open>k = 9223372036854775808\<close>, the first integer above
  the 64-bit range, no entry qualifies (the ratings are 5, 3 and 4), but the parameter
  does not parse and the handler answers with all three entries.
\<close>

theorem min_rating_out_of_range_counterexample:
  "Atoi (minRatingParam (filterRequest ''9223372036854775808'')) = Inl ErrRange
   \<and> map Rating (getSampleEntries clock0) = [5, 3, 4]
   \<and> fst (GetRecentEntries plainRender clock0 (filterRequest ''9223372036854775808'') emptyWorld)
       = Body ''recent ***** *** **** ''"
  by (simp add: GetRecentEntries_def parse_simps request_simps getSampleEntries_def
      renderOr500_def plainRender_def stars_def eval_nat_numeral)

text \<open>
  C4 (amended): the integers \<open>k\<close> that a \<open>min_rating\<close> parameter can denote are those of
  the signed 64-bit range, each of them by some string. When the parameter parses as
  \<open>k\<close>, \<open>GetRecentEntries\<close> renders exactly the sample entries whose rating is at
  least \<open>k\<close>, in the order of the entry source (ids ascending); the handler does not
  sort, its loop returns the entries rated at least \<open>k\<close> of any list in the order of
  that list. The order is that of descending watched date whenever the clock readings of
  the read allow it: the second reading, zone shift included, at most 3 days after the
  first, and the third at most 5 days after the second. With \<open>k = 4\<close> the ratings
  returned from the three sample entries (rated 5, 3, 4) are 5 and 4.
\<close>

theorem recent_entries_min_rating:
  "(Atoi (minRatingParam r) = Inr k \<longrightarrow>
      - (2 ^ 63) \<le> k \<and> k < 2 ^ 63
      \<and> GetRecentEntries render now r w
        = (renderOr500 render
             (RecentEntries (filter (\<lambda>e. k \<le> Rating e) (getSampleEntries now))
                (minRatingParam r)),
           emit ReadSampleEntries w))
   \<and> (- (2 ^ 63) \<le> k \<and> k < 2 ^ 63 \<longrightarrow> (\<exists>s. Atoi s = Inr k))
   \<and> sorted (map DiaryEntry.ID (filter (\<lambda>e. k \<le> Rating e) (getSampleEntries now)))
   \<and> (reading2 now + zoneShift now (reading2 now) (- 5)
          \<le> reading1 now + zoneShift now (reading1 now) (- 2) + 3 * nsPerDay
        \<and> reading3 now + zoneShift now (reading3 now) (- 10)
          \<le> reading2 now + zoneShift now (reading2 now) (- 5) + 5 * nsPerDay
        \<longrightarrow> sorted_wrt (\<lambda>a b. WatchedDate a \<ge> WatchedDate b)
              (filter (\<lambda>e. k \<le> Rating e) (getSampleEntries now)))
   \<and> filterLoop k es [] = filter (\<lambda>e. k \<le> Rating e) es
   \<and> map Rating (filter (\<lambda>e. 4 \<le> Rating e) (getSampleEntries now)) = [5, 4]"
proof (intro conjI impI)
  assume p: "Atoi (minRatingParam r) = Inr k"
  then show "- (2 ^ 63) \<le> k" and "k < 2 ^ 63"
    using ParseInt_range [of "minRatingParam r" k] by (simp_all add: Atoi_def)
  from p have "minRatingParam r \<noteq> []"
    by (rule Atoi_nonempty)
  with p show "GetRecentEntries render now r w
        = (renderOr500 render
             (RecentEntries (filter (\<lambda>e. k \<le> Rating e) (getSampleEntries now))
                (minRatingParam r)),
           emit ReadSampleEntries w)"
    by (simp add: GetRecentEntries_def filterLoop_eq)
next
  assume "- (2 ^ 63) \<le> k \<and> k < 2 ^ 63"
  then show "\<exists>s. Atoi s = Inr k"
    by (simp add: Atoi_def ParseInt_complete)
next
  show "sorted (map DiaryEntry.ID (filter (\<lambda>e. k \<le> Rating e) (getSampleEntries now)))"
    by (rule sample_filter_ids_sorted)
next
  assume "reading2 now + zoneShift now (reading2 now) (- 5)
          \<le> reading1 now + zoneShift now (reading1 now) (- 2) + 3 * nsPerDay
        \<and> reading3 now + zoneShift now (reading3 now) (- 10)
          \<le> reading2 now + zoneShift now (reading2 now) (- 5) + 5 * nsPerDay"
  then have "sorted_wrt (\<lambda>a b. WatchedDate a \<ge> WatchedDate b) (getSampleEntries now)"
    by (simp add: sample_sorted)
  then show "sorted_wrt (\<lambda>a b. WatchedDate a \<ge> WatchedDate b)
        (filter (\<lambda>e. k \<le> Rating e) (getSampleEntries now))"
    by (rule sorted_wrt_filter)
next
  show "filterLoop k es [] = filter (\<lambda>e. k \<le> Rating e) es"
    by (simp add: filterLoop_eq)
next
  show "map Rating (filter (\<lambda>e. 4 \<le> Rating e) (getSampleEntries now)) = [5, 4]"
    by (simp add: getSampleEntries_def)
qed

theorem recent_entries_min_rating_witness:
  "Atoi (minRatingParam (filterRequest ''4'')) = Inr 4
   \<and> fst (GetRecentEntries plainRender clock0 (filterRequest ''4'') emptyWorld)
       = Body ''recent ***** **** ''
   \<and> reading2 clock0 + zoneShift clock0 (reading2 clock0) (- 5)
        \<le> reading1 clock0 + zoneShift clock0 (reading1 clock0) (- 2) + 3 * nsPerDay
   \<and> reading3 clock0 + zoneShift clock0 (reading3 clock0) (- 10)
        \<le> reading2 clock0 + zoneShift clock0 (reading2 clock0) (- 5) + 5 * nsPerDay
   \<and> map WatchedDate (filter (\<lambda>e. 4 \<le> Rating e) (getSampleEntries clock0))
       = [- 172800000000000, - 863999999998000]"
proof -
  have h: "Atoi (minRatingParam (filterRequest ''4'')) = Inr 4"
    by (simp add: parse_simps request_simps)
  have c: "reading2 clock0 + zoneShift clock0 (reading2 clock0) (- 5)
        \<le> reading1 clock0 + zoneShift clock0 (reading1 clock0) (- 2) + 3 * nsPerDay
      \<and> reading3 clock0 + zoneShift clock0 (reading3 clock0) (- 10)
        \<le> reading2 clock0 + zoneShift clock0 (reading2 clock0) (- 5) + 5 * nsPerDay"
    by (simp add: clock0_def utc_def nsPerDay_def)
  note t = recent_entries_min_rating [where r = "filterRequest ''4''" and k = 4
        and render = plainRender and now = clock0 and w = emptyWorld]
  have "GetRecentEntries plainRender clock0 (filterRequest ''4'') emptyWorld
           = (renderOr500 plainRender
                (RecentEntries (filter (\<lambda>e. 4 \<le> Rating e) (getSampleEntries clock0))
                   (minRatingParam (filterRequest ''4''))),
              emit ReadSampleEntries emptyWorld)"
    using t h by blast
  then have b: "fst (GetRecentEntries plainRender clock0 (filterRequest ''4'') emptyWorld)
       = Body ''recent ***** **** ''"
    by (simp add: getSampleEntries_def renderOr500_def plainRender_def stars_def eval_nat_numeral)
  have "sorted_wrt (\<lambda>a b. WatchedDate a \<ge> WatchedDate b)
      (filter (\<lambda>e. 4 \<le> Rating e) (getSampleEntries clock0))"
    using t c by blast
  have d: "map WatchedDate (filter (\<lambda>e. 4 \<le> Rating e) (getSampleEntries clock0))
       = [- 172800000000000, - 863999999998000]"
    by (simp add: getSampleEntries_def AddDate_def nsPerDay_def clock0_def utc_def)
  from h b c d show ?thesis
    by blast
qed

text \<open>
  C9: when the \<open>min_rating\<close> parameter is not empty and does not parse, the filter is
  skipped: \<open>GetRecentEntries\<close> renders the full list of sample entries, never answers
  400, and answers 200 whenever the template renders.
\<close>

theorem unparsable_min_rating_ignored:
  assumes "minRatingParam r \<noteq> []" and "Atoi (minRatingParam r) = Inl err"
  shows "GetRecentEntries render now r w
           = (renderOr500 render (RecentEntries (getSampleEntries now) (minRatingParam r)),
              emit ReadSampleEntries w)
       \<and> StatusCode (fst (GetRecentEntries render now r w)) \<noteq> StatusBadRequest
       \<and> (render (RecentEntries (getSampleEntries now) (minRatingParam r)) \<noteq> None
            \<longrightarrow> StatusCode (fst (GetRecentEntries render now r w)) = StatusOK)"
  using assms
  by (simp add: GetRecentEntries_def renderOr500_status status_simps)

theorem unparsable_min_rating_ignored_witness:
  "minRatingParam (filterRequest ''four'') \<noteq> []
   \<and> Atoi (minRatingParam (filterRequest ''four'')) = Inl ErrSyntax
   \<and> fst (GetRecentEntries plainRender clock0 (filterRequest ''four'') emptyWorld)
       = Body ''recent ***** *** **** ''"
proof -
  have h1: "minRatingParam (filterRequest ''four'') \<noteq> []"
    by (simp add: request_simps)
  have h2: "Atoi (minRatingParam (filterRequest ''four'')) = Inl ErrSyntax"
    by (simp add: parse_simps request_simps)
  have "GetRecentEntries plainRender clock0 (filterRequest ''four'') emptyWorld
           = (renderOr500 plainRender
                (RecentEntries (getSampleEntries clock0) (minRatingParam (filterRequest ''four''))),
              emit ReadSampleEntries emptyWorld)"
    using unparsable_min_rating_ignored [OF h1 h2, of plainRender clock0 emptyWorld] by blast
  then have "fst (GetRecentEntries plainRender clock0 (filterRequest ''four'') emptyWorld)
       = Body ''recent ***** *** **** ''"
    by (simp add: getSampleEntries_def renderOr500_def plainRender_def stars_def eval_nat_numeral)
  with h1 h2 show ?thesis
    by blast
qed

section \<open>Submitting an edit\<close>

text \<open>
  C3 (as stated, refuted): the edit is said to be applied and the detail fragment of the
  updated entry returned. The form below sets the rating of entry 1 to 1 and its notes
  to \<open>changed\<close>; the answer shows entry 1 with five stars and its old notes, and the
  database is untouched.
\<close>

theorem edit_not_applied_counterexample:
  "FormValue (formRequest ''1'' [(''rating'', ''1''), (''notes'', ''changed'')]) ''rating'' = ''1''
   \<and> FormValue (formRequest ''1'' [(''rating'', ''1''), (''notes'', ''changed'')]) ''notes'' = ''changed''
   \<and> fst (EditDiaryEntry plainRender clock0
        (formRequest ''1'' [(''rating'', ''1''), (''notes'', ''changed'')]) emptyWorld)
       = Body ''details ***** First rule of Fight Club...''
   \<and> database (snd (EditDiaryEntry plainRender clock0
        (formRequest ''1'' [(''rating'', ''1''), (''notes'', ''changed'')]) emptyWorld))
       = emptyDb"
  by (simp add: EditDiaryEntry_def FormValue_def parse_simps request_simps getSampleEntries_def
      renderOr500_def plainRender_def stars_def emit_def emptyWorld_def eval_nat_numeral)

text \<open>
  C3 (amended): \<open>EditDiaryEntry\<close> applies no edit. It answers 400 when the id does not
  parse, 400 when the id parses and the form does not; otherwise it logs the submitted
  fields, reads the sample entries, leaves the database alone, and answers 404 when no
  sample entry has the id and else the detail fragment of that sample entry as stored,
  whatever the form holds.
\<close>

theorem edit_answers_stored_entry:
  "(ParseInt (pathId r) = Inl err \<longrightarrow>
      EditDiaryEntry render now r w = (HttpError ''Invalid ID'' StatusBadRequest, w))
   \<and> (ParseInt (pathId r) = Inr i \<and> form r = None \<longrightarrow>
      EditDiaryEntry render now r w = (HttpError ''Failed to parse form'' StatusBadRequest, w))
   \<and> (ParseInt (pathId r) = Inr i \<and> form r \<noteq> None \<longrightarrow>
      database (snd (EditDiaryEntry render now r w)) = database w
      \<and> events (snd (EditDiaryEntry render now r w))
          = events w @ [LogInfo ''Received edit for diary entry'' (formAttrs r), ReadSampleEntries]
      \<and> fst (EditDiaryEntry render now r w)
          = (case getEntryByID i (getSampleEntries now) of
               None \<Rightarrow> HttpError ''Entry not found after edit'' StatusNotFound
             | Some entry \<Rightarrow> renderOr500 render (MovieDetails entry)))"
  by (auto simp: EditDiaryEntry_def emit_def split: option.splits)

theorem edit_answers_stored_entry_witness:
  "ParseInt (pathId (formRequest ''3'' [(''rating'', ''2'')])) = Inr 3
   \<and> form (formRequest ''3'' [(''rating'', ''2'')]) \<noteq> None
   \<and> fst (EditDiaryEntry plainRender clock0 (formRequest ''3'' [(''rating'', ''2'')]) emptyWorld)
       = Body ''details **** A masterpiece of non-linear storytelling.''
   \<and> ParseInt (pathId (formRequest ''x'' [])) = Inl ErrSyntax
   \<and> StatusCode (fst (EditDiaryEntry plainRender clock0 (formRequest ''x'' []) emptyWorld)) = 400
   \<and> ParseInt (pathId (idRequest ''3'')) = Inr 3
   \<and> form (idRequest ''3'') = None
   \<and> StatusCode (fst (EditDiaryEntry plainRender clock0 (idRequest ''3'') emptyWorld)) = 400"
proof -
  have h3: "ParseInt (pathId (formRequest ''3'' [(''rating'', ''2'')])) = Inr 3"
    and f3: "form (formRequest ''3'' [(''rating'', ''2'')]) \<noteq> None"
    and hx: "ParseInt (pathId (formRequest ''x'' [])) = Inl ErrSyntax"
    and hi: "ParseInt (pathId (idRequest ''3'')) = Inr 3"
    and fi: "form (idRequest ''3'') = None"
    by (simp_all add: parse_simps request_simps)
  have "fst (EditDiaryEntry plainRender clock0 (formRequest ''3'' [(''rating'', ''2'')]) emptyWorld)
          = (case getEntryByID 3 (getSampleEntries clock0) of
               None \<Rightarrow> HttpError ''Entry not found after edit'' StatusNotFound
             | Some entry \<Rightarrow> renderOr500 plainRender (MovieDetails entry))"
    using edit_answers_stored_entry
      [of "formRequest ''3'' [(''rating'', ''2'')]" _ plainRender clock0 emptyWorld 3] h3 f3
    by blast
  then have a: "fst (EditDiaryEntry plainRender clock0 (formRequest ''3'' [(''rating'', ''2'')]) emptyWorld)
       = Body ''details **** A masterpiece of non-linear storytelling.''"
    by (simp add: getSampleEntries_def renderOr500_def plainRender_def stars_def eval_nat_numeral)
  have "EditDiaryEntry plainRender clock0 (formRequest ''x'' []) emptyWorld
      = (HttpError ''Invalid ID'' StatusBadRequest, emptyWorld)"
    using edit_answers_stored_entry [of "formRequest ''x'' []" ErrSyntax plainRender clock0 emptyWorld] hx
    by blast
  then have b: "StatusCode (fst (EditDiaryEntry plainRender clock0 (formRequest ''x'' []) emptyWorld)) = 400"
    by (simp add: status_simps)
  have "EditDiaryEntry plainRender clock0 (idRequest ''3'') emptyWorld
      = (HttpError ''Failed to parse form'' StatusBadRequest, emptyWorld)"
    using edit_answers_stored_entry [of "idRequest ''3''" _ plainRender clock0 emptyWorld 3] hi fi
    by blast
  then have c: "StatusCode (fst (EditDiaryEntry plainRender clock0 (idRequest ''3'') emptyWorld)) = 400"
    by (simp add: status_simps)
  from h3 f3 a hx b hi fi c show ?thesis
    by blast
qed

section \<open>What the handlers change\<close>



section \<open>Migrations\<close>

text \<open>
  C6: \<open>Migrate\<close> is idempotent. On a database whose tracking table holds the current
  version as its maximum, it applies no step and leaves the database as it is, under
  every fault plan, and it returns no error when its two calls succeed. After a run
  that returned no error, a second run, under any fault plan, applies no step and leaves
  the database as the first run left it, and returns no error when its two calls succeed
  (the versions being 64-bit values); the versions the first run applied are rows of the
  tracking table. Under one and the same fault plan, a second run leaves the database
  as the first one left it, whether the first returned an error or not.
\<close>

theorem migrate_idempotent:
  "(schema_migrations db = Some vs \<and> maxVersion vs = Some schemaVersion \<longrightarrow>
      snd (Migrate flt db) = (db, [])
      \<and> (\<not> flt ExecCreateMigrationsTable \<and> \<not> flt QueryCurrentVersion \<longrightarrow>
           Migrate flt db = (None, db, [])))
   \<and> (Migrate flt1 db0 = (None, db1, a1) \<longrightarrow>
      snd (Migrate flt2 db1) = (db1, [])
      \<and> (int64_versions db0 \<and> \<not> flt2 ExecCreateMigrationsTable \<and> \<not> flt2 QueryCurrentVersion \<longrightarrow>
           Migrate flt2 db1 = (None, db1, []))
      \<and> (\<exists>vs1. schema_migrations db1 = Some vs1 \<and> set a1 \<subseteq> set vs1))
   \<and> fst (snd (Migrate flt (fst (snd (Migrate flt db0))))) = fst (snd (Migrate flt db0))"
proof (intro conjI impI)
  assume "schema_migrations db = Some vs \<and> maxVersion vs = Some schemaVersion"
  then show "snd (Migrate flt db) = (db, [])"
    by (simp add: Migrate_at_current_version)
next
  assume "schema_migrations db = Some vs \<and> maxVersion vs = Some schemaVersion"
    and "\<not> flt ExecCreateMigrationsTable \<and> \<not> flt QueryCurrentVersion"
  then show "Migrate flt db = (None, db, [])"
    by (simp add: Migrate_at_current_version)
next
  assume "Migrate flt1 db0 = (None, db1, a1)"
  then show "snd (Migrate flt2 db1) = (db1, [])"
    by (rule Migrate_again_state)
next
  assume "Migrate flt1 db0 = (None, db1, a1)"
    and "int64_versions db0 \<and> \<not> flt2 ExecCreateMigrationsTable \<and> \<not> flt2 QueryCurrentVersion"
  then show "Migrate flt2 db1 = (None, db1, [])"
    by (simp add: Migrate_again_succeeds)
next
  assume "Migrate flt1 db0 = (None, db1, a1)"
  then show "\<exists>vs1. schema_migrations db1 = Some vs1 \<and> set a1 \<subseteq> set vs1"
    by (rule Migrate_applied_recorded)
next
  show "fst (snd (Migrate flt (fst (snd (Migrate flt db0))))) = fst (snd (Migrate flt db0))"
    by (rule Migrate_same_plan_idem)
qed

theorem migrate_idempotent_witness:
  "Migrate noFaults emptyDb = (None, migratedDb, [1])
   \<and> int64_versions emptyDb
   \<and> Migrate noFaults migratedDb = (None, migratedDb, [])
   \<and> schema_migrations migratedDb = Some [1]
   \<and> maxVersion [1] = Some schemaVersion
   \<and> snd (Migrate (failAt QueryCurrentVersion) migratedDb) = (migratedDb, [])"
proof -
  have first: "Migrate noFaults emptyDb = (None, migratedDb, [1])"
    by (simp add: migrate_simps)
  have range: "int64_versions emptyDb"
    by (simp add: int64_versions_def emptyDb_def)
  have nf: "\<not> noFaults ExecCreateMigrationsTable \<and> \<not> noFaults QueryCurrentVersion"
    by (simp add: noFaults_def)
  have cur: "schema_migrations migratedDb = Some [1] \<and> maxVersion [1] = Some schemaVersion"
    by (simp add: migratedDb_def schemaVersion_def)
  have again: "Migrate noFaults migratedDb = (None, migratedDb, [])"
    using migrate_idempotent [where ?flt1.0 = noFaults and ?db0.0 = emptyDb
        and ?db1.0 = migratedDb and ?a1.0 = "[1]" and ?flt2.0 = noFaults] first range nf
    by blast
  have "snd (Migrate (failAt QueryCurrentVersion) migratedDb) = (migratedDb, [])"
    using migrate_idempotent [where db = migratedDb and vs = "[1]"
        and flt = "failAt QueryCurrentVersion"] cur
    by blast
  with first range again cur show ?thesis
    by blast
qed

text \<open>
  C7: a migration step is all or nothing. If \<open>runMigration\<close> returns an error the
  database is the one before the step; if it returns none, the database is the one
  before the step with the migration script executed and the version inserted. A fault
  in any of the four calls of the step (begin, script, insert, commit) makes the step
  return an error. When \<open>Migrate\<close> returns the error of a step, the database is the
  one before that step (the given one with the tracking table created) and no step is
  reported as applied; whatever error \<open>Migrate\<close> returns, the database is the given
  one, at most with the tracking table created. And \<open>Migrate\<close> does fail when its
  step fails: once the tracking table is created and the current version read, an
  error of the step it runs, and so a fault in any of the step's four calls, makes
  \<open>Migrate\<close> return that step's error, wrapped with the version, and leave the database
  as it was before the step.
\<close>

theorem migration_step_atomic:
  "(runMigration flt v db = (Some e, d) \<longrightarrow> d = db)
   \<and> (runMigration flt v db = (None, d) \<longrightarrow>
        (\<exists>migration. migrationFor v = Some migration \<and> insertVersion v (migration db) = Some d))
   \<and> (flt (BeginTx v) \<or> flt (ExecMigration v) \<or> flt (ExecRecordVersion v) \<or> flt (CommitTx v) \<longrightarrow>
        fst (runMigration flt v db) \<noteq> None \<and> snd (runMigration flt v db) = db)
   \<and> (Migrate flt db0 = (Some (RunningMigration v e), d2, a) \<longrightarrow>
        d2 = createMigrationsTable db0 \<and> a = []
        \<and> runMigration flt v (createMigrationsTable db0) = (Some e, createMigrationsTable db0))
   \<and> (Migrate flt db0 = (Some err, d2, a) \<longrightarrow>
        (d2 = db0 \<or> d2 = createMigrationsTable db0) \<and> a = [])
   \<and> (\<not> flt ExecCreateMigrationsTable \<and> \<not> flt QueryCurrentVersion
        \<and> selectCurrentVersion (createMigrationsTable db0) = Some cur
        \<and> wrap64 (cur + 1) \<le> schemaVersion
        \<and> fst (runMigration flt (wrap64 (cur + 1)) (createMigrationsTable db0)) = Some e \<longrightarrow>
        Migrate flt db0
          = (Some (RunningMigration (wrap64 (cur + 1)) e), createMigrationsTable db0, []))
   \<and> (\<not> flt ExecCreateMigrationsTable \<and> \<not> flt QueryCurrentVersion
        \<and> selectCurrentVersion (createMigrationsTable db0) = Some cur
        \<and> wrap64 (cur + 1) \<le> schemaVersion
        \<and> (flt (BeginTx (wrap64 (cur + 1))) \<or> flt (ExecMigration (wrap64 (cur + 1)))
            \<or> flt (ExecRecordVersion (wrap64 (cur + 1))) \<or> flt (CommitTx (wrap64 (cur + 1)))) \<longrightarrow>
        (\<exists>e'. Migrate flt db0
          = (Some (RunningMigration (wrap64 (cur + 1)) e'), createMigrationsTable db0, [])))"
proof (intro conjI impI)
  assume "runMigration flt v db = (Some e, d)"
  then show "d = db"
    by (rule runMigration_error_unchanged)
next
  assume "runMigration flt v db = (None, d)"
  from runMigration_success [OF this]
  show "\<exists>migration. migrationFor v = Some migration \<and> insertVersion v (migration db) = Some d"
    by (simp add: migrationFor_def)
next
  assume f: "flt (BeginTx v) \<or> flt (ExecMigration v) \<or> flt (ExecRecordVersion v) \<or> flt (CommitTx v)"
  from runMigration_fault [OF f] show "fst (runMigration flt v db) \<noteq> None"
    by blast
  from runMigration_fault [OF f] show "snd (runMigration flt v db) = db"
    by blast
next
  assume m: "Migrate flt db0 = (Some (RunningMigration v e), d2, a)"
  from Migrate_step_error [OF m] show "d2 = createMigrationsTable db0"
    by blast
  from Migrate_step_error [OF m] show "a = []"
    by blast
  from Migrate_step_error [OF m]
  show "runMigration flt v (createMigrationsTable db0) = (Some e, createMigrationsTable db0)"
    by blast
next
  assume m: "Migrate flt db0 = (Some err, d2, a)"
  from Migrate_error_state [OF m] show "d2 = db0 \<or> d2 = createMigrationsTable db0"
    by blast
  from Migrate_error_state [OF m] show "a = []"
    by blast
next
  assume "\<not> flt ExecCreateMigrationsTable \<and> \<not> flt QueryCurrentVersion
        \<and> selectCurrentVersion (createMigrationsTable db0) = Some cur
        \<and> wrap64 (cur + 1) \<le> schemaVersion
        \<and> fst (runMigration flt (wrap64 (cur + 1)) (createMigrationsTable db0)) = Some e"
  then show "Migrate flt db0
          = (Some (RunningMigration (wrap64 (cur + 1)) e), createMigrationsTable db0, [])"
    by (simp add: Migrate_step_fails)
next
  assume "\<not> flt ExecCreateMigrationsTable \<and> \<not> flt QueryCurrentVersion
        \<and> selectCurrentVersion (createMigrationsTable db0) = Some cur
        \<and> wrap64 (cur + 1) \<le> schemaVersion
        \<and> (flt (BeginTx (wrap64 (cur + 1))) \<or> flt (ExecMigration (wrap64 (cur + 1)))
            \<or> flt (ExecRecordVersion (wrap64 (cur + 1))) \<or> flt (CommitTx (wrap64 (cur + 1))))"
  then show "\<exists>e'. Migrate flt db0
          = (Some (RunningMigration (wrap64 (cur + 1)) e'), createMigrationsTable db0, [])"
    using Migrate_step_fault [of flt db0 cur] by blast
qed

theorem migration_step_atomic_witness:
  "failAt (CommitTx 1) (CommitTx 1)
   \<and> runMigration (failAt (CommitTx 1)) 1 (createMigrationsTable emptyDb)
       = (Some CommitFailed, createMigrationsTable emptyDb)
   \<and> \<not> failAt (CommitTx 1) ExecCreateMigrationsTable
   \<and> \<not> failAt (CommitTx 1) QueryCurrentVersion
   \<and> selectCurrentVersion (createMigrationsTable emptyDb) = Some 0
   \<and> wrap64 (0 + 1) = 1
   \<and> Migrate (failAt (CommitTx 1)) emptyDb
       = (Some (RunningMigration 1 CommitFailed), createMigrationsTable emptyDb, [])
   \<and> Migrate (failAt (ExecRecordVersion 1)) emptyDb
       = (Some (RunningMigration 1 RecordingMigration), createMigrationsTable emptyDb, [])
   \<and> runMigration (failAt (ExecRecordVersion 1)) 1 (createMigrationsTable emptyDb)
       = (Some RecordingMigration, createMigrationsTable emptyDb)
   \<and> runMigration noFaults 1 (createMigrationsTable emptyDb) = (None, migratedDb)
   \<and> insertVersion 1 (migrationV1 (createMigrationsTable emptyDb)) = Some migratedDb"
proof -
  let ?dbc = "createMigrationsTable emptyDb"
  have f: "failAt (CommitTx 1) (CommitTx 1)"
    by (simp add: failAt_def)
  have "fst (runMigration (failAt (CommitTx 1)) 1 ?dbc) \<noteq> None
      \<and> snd (runMigration (failAt (CommitTx 1)) 1 ?dbc) = ?dbc"
    using migration_step_atomic [where flt = "failAt (CommitTx 1)" and v = 1 and db = ?dbc] f
    by blast
  then have step: "runMigration (failAt (CommitTx 1)) 1 ?dbc = (Some CommitFailed, ?dbc)"
    by (simp add: migrate_simps)
  have nf: "\<not> failAt (CommitTx 1) ExecCreateMigrationsTable"
    "\<not> failAt (CommitTx 1) QueryCurrentVersion"
    by (simp_all add: failAt_def)
  have cur: "selectCurrentVersion ?dbc = Some 0"
    by (simp add: migrate_simps)
  have w1: "wrap64 (0 + 1) = 1"
    by (simp add: wrap64_def)
  have le: "wrap64 (0 + 1) \<le> schemaVersion"
    by (simp add: wrap64_def schemaVersion_def)
  have st: "fst (runMigration (failAt (CommitTx 1)) (wrap64 (0 + 1)) ?dbc) = Some CommitFailed"
    by (simp add: wrap64_def step)
  have "Migrate (failAt (CommitTx 1)) emptyDb
      = (Some (RunningMigration (wrap64 (0 + 1)) CommitFailed), ?dbc, [])"
    using migration_step_atomic [where flt = "failAt (CommitTx 1)" and ?db0.0 = emptyDb
        and cur = 0 and e = CommitFailed] nf cur le st
    by blast
  then have mc: "Migrate (failAt (CommitTx 1)) emptyDb
      = (Some (RunningMigration 1 CommitFailed), ?dbc, [])"
    by (simp add: wrap64_def)
  have m: "Migrate (failAt (ExecRecordVersion 1)) emptyDb
      = (Some (RunningMigration 1 RecordingMigration), ?dbc, [])"
    by (simp add: migrate_simps)
  have rec: "runMigration (failAt (ExecRecordVersion 1)) 1 ?dbc = (Some RecordingMigration, ?dbc)"
    using migration_step_atomic [where flt = "failAt (ExecRecordVersion 1)" and v = 1
        and ?db0.0 = emptyDb and e = RecordingMigration and ?d2.0 = ?dbc and a = "[]"] m
    by blast
  have ok: "runMigration noFaults 1 ?dbc = (None, migratedDb)"
    by (simp add: migrate_simps)
  have "\<exists>migration. migrationFor 1 = Some migration
      \<and> insertVersion 1 (migration ?dbc) = Some migratedDb"
    using migration_step_atomic [where flt = noFaults and v = 1 and db = ?dbc and d = migratedDb] ok
    by blast
  then have ins: "insertVersion 1 (migrationV1 ?dbc) = Some migratedDb"
    by (simp add: migrationFor_def)
  from f step nf cur w1 mc m rec ok ins show ?thesis
    by blast
qed


end
